theory Spec2Isabelle
  imports Main "HOL-Library.Word"
begin

unbundle bit_operations_syntax

section \<open>Machine integers, sectors and LBA arithmetic\<close>

type_synonym u8 = "8 word"
type_synonym u32 = "32 word"

text \<open>
  A sector is the content of one 512-byte LBA. Files, buffers and the cached disc header
  are sequences of sectors; every transfer of the engine is a whole number of sectors at a
  sector-aligned offset.
\<close>

type_synonym sector = "u8 list"

definition LBA_SIZE :: nat where
  "LBA_SIZE = 512"

definition zero_sector :: sector where
  "zero_sector = replicate 512 0"

text \<open>
  \<open>LBA_TO_BYTES(x) = (int64_t)(x) * LBA_SIZE\<close> (reader_plain.cpp, line 29): the argument
  is a 32-bit LBA, the result a 64-bit byte offset, so the product cannot wrap.
\<close>

definition LBA_TO_BYTES :: "u32 \<Rightarrow> int" where
  "LBA_TO_BYTES x = uint x * 512"

text \<open>
  \<open>BYTES_TO_LBA\<close> is declared in nhcd_structs.h, which is not among the sources; it is the
  inverse conversion \<open>(uint32_t)(x / LBA_SIZE)\<close>, as its uses show
  (\<open>LBA_COUNT_BUF = BYTES_TO_LBA(1048576)\<close> sectors fill the 1 MiB buffer).
\<close>

definition BYTES_TO_LBA :: "nat \<Rightarrow> nat" where
  "BYTES_TO_LBA x = (x div 512) mod 2 ^ 32"

section \<open>RefFile: the underlying stream\<close>

datatype io_event = IoSeek int | IoRead nat | IoWrite nat | IoFlush | IoMakeSparse int

text \<open>
  The stream is a sequence of \<open>flen\<close> sectors, \<open>content f i\<close> being sector \<open>i\<close>; a hole
  reads as zeroes. \<open>fpos\<close> is the file position in bytes. \<open>iolog\<close> records every
  operation that reaches the stream, oldest first. \<open>seek_fails\<close> and \<open>sparse_fails\<close>
  stand for the environment: a stream on which \<open>seeko\<close> (resp. \<open>makeSparse\<close>) reports an
  error; \<open>last_error\<close> is what \<open>lastError()\<close> then returns (\<open>None\<close> for 0).
\<close>

datatype posix_errno =
  ENOENT | EIO | ENOMEM | EEXIST | EINVAL | ENOSPC | EROFS | ERANGE | ECANCELED

record RefFile =
  content :: "nat \<Rightarrow> sector"
  flen :: nat
  fpos :: int
  iolog :: "io_event list"
  seek_fails :: bool
  sparse_fails :: bool
  last_error :: "posix_errno option"

definition file_sector :: "RefFile \<Rightarrow> nat \<Rightarrow> sector" where
  "file_sector f i = (if i < flen f then content f i else zero_sector)"

text \<open>\<open>seeko(offset, SEEK_SET)\<close>: \<open>True\<close> is the return value 0.\<close>

definition ref_seeko :: "RefFile \<Rightarrow> int \<Rightarrow> bool \<times> RefFile" where
  "ref_seeko f off =
     (if seek_fails f \<or> off < 0 then (False, f\<lparr>iolog := iolog f @ [IoSeek off]\<rparr>)
      else (True, f\<lparr>fpos := off, iolog := iolog f @ [IoSeek off]\<rparr>))"

text \<open>
  \<open>read(ptr, LBA_SIZE, n)\<close>: the sectors from the file position up to the end of the
  stream, at most \<open>n\<close>; the result is the sectors read (their number is the return value).
\<close>

definition ref_read :: "RefFile \<Rightarrow> nat \<Rightarrow> sector list \<times> RefFile" where
  "ref_read f n =
     (let p = nat (fpos f div 512);
          k = min n (flen f - p)
      in (map (content f) [p ..< p + k],
          f\<lparr>fpos := fpos f + int k * 512, iolog := iolog f @ [IoRead k]\<rparr>))"

text \<open>
  \<open>write(ptr, LBA_SIZE, n)\<close>: the sectors are stored at the file position; a write past
  the end extends the stream, the gap reading as zeroes.
\<close>

definition ref_write :: "RefFile \<Rightarrow> sector list \<Rightarrow> nat \<times> RefFile" where
  "ref_write f data =
     (let p = nat (fpos f div 512);
          k = length data
      in (k,
          f\<lparr>content := (\<lambda>i. if p \<le> i \<and> i < p + k then data ! (i - p) else file_sector f i),
            flen := (if k = 0 then flen f else max (flen f) (p + k)),
            fpos := fpos f + int k * 512,
            iolog := iolog f @ [IoWrite k]\<rparr>))"

definition ref_flush :: "RefFile \<Rightarrow> RefFile" where
  "ref_flush f = f\<lparr>iolog := iolog f @ [IoFlush]\<rparr>"

text \<open>
  Modelled from the spec: \<open>makeSparse\<close> (RefFile is not among the sources). "make_sparse(n)
  truncates to n bytes and, where supported, marks the file sparse"; failures surface as
  error codes. \<open>True\<close> is the return value 0.
\<close>

definition ref_makeSparse :: "RefFile \<Rightarrow> int \<Rightarrow> bool \<times> RefFile" where
  "ref_makeSparse f n =
     (if sparse_fails f then (False, f\<lparr>iolog := iolog f @ [IoMakeSparse n]\<rparr>)
      else (True, f\<lparr>content := file_sector f,
                    flen := nat (n div 512),
                    iolog := iolog f @ [IoMakeSparse n]\<rparr>))"

section \<open>Reader: the plain sector window\<close>

record Reader =
  rd_lba_start :: u32
  rd_lba_len :: u32

text \<open>
  Storing what a read returned into the caller's buffer \<open>ptr\<close>: the first sectors of the
  buffer are replaced. \<open>None\<close> is a transfer longer than the buffer (a write past the end
  of the allocation).
\<close>

definition buf_store :: "sector list \<Rightarrow> sector list \<Rightarrow> sector list option" where
  "buf_store buf data =
     (if length data \<le> length buf then Some (data @ drop (length data) buf) else None)"

text \<open>
  reader_plain.cpp, \<open>reader_plain_read\<close> (lines 151-177). All of \<open>lba_start\<close>,
  \<open>lba_len\<close>, \<open>reader->lba_start\<close> and \<open>reader->lba_len\<close> are \<open>uint32_t\<close>: the sums of
  the bounds check wrap modulo \<open>2^32\<close>. The \<open>assert\<close> before the check states the same
  comparison, in the same arithmetic, and is compiled out of a release build; the
  assignments to \<open>errno\<close> are not modelled (no caller here reads them). The result is the
  number of LBAs read, the sectors read, and the stream afterwards.
\<close>

definition reader_plain_read ::
    "Reader \<Rightarrow> RefFile \<Rightarrow> u32 \<Rightarrow> u32 \<Rightarrow> u32 \<times> sector list \<times> RefFile" where
  "reader_plain_read reader f lba_start0 lba_len0 =
     (let lba_start1 = lba_start0 + rd_lba_start reader
      in if lba_start1 + lba_len0 > rd_lba_start reader + rd_lba_len reader
         then (0, [], f)
         else (case ref_seeko f (LBA_TO_BYTES lba_start1) of
                 (False, f1) \<Rightarrow> (0, [], f1)
               | (True, f1) \<Rightarrow>
                   (case ref_read f1 (unat lba_len0) of
                      (data, f2) \<Rightarrow> (of_nat (length data), data, f2))))"

text \<open>reader_plain.cpp, \<open>reader_plain_write\<close> (lines 187-213).\<close>

definition reader_plain_write ::
    "Reader \<Rightarrow> RefFile \<Rightarrow> sector list \<Rightarrow> u32 \<Rightarrow> u32 \<Rightarrow> u32 \<times> RefFile" where
  "reader_plain_write reader f ptr lba_start0 lba_len0 =
     (let lba_start1 = lba_start0 + rd_lba_start reader
      in if lba_start1 + lba_len0 > rd_lba_start reader + rd_lba_len reader
         then (0, f)
         else (case ref_seeko f (LBA_TO_BYTES lba_start1) of
                 (False, f1) \<Rightarrow> (0, f1)
               | (True, f1) \<Rightarrow>
                   (case ref_write f1 (take (unat lba_len0) ptr) of
                      (k, f2) \<Rightarrow> (of_nat k, f2))))"

definition reader_plain_flush :: "Reader \<Rightarrow> RefFile \<Rightarrow> RefFile" where
  "reader_plain_flush reader f = ref_flush f"

text \<open>
  reader_plain.c, \<open>reader_plain_read\<close> and \<open>reader_plain_write\<close> (lines 132-174): the
  older C reader seeks to \<open>LBA_TO_BYTES(reader->lba_start + lba_start)\<close> with no bounds
  check ("TODO: Verify LBA bounds").
\<close>

definition reader_plain_read_c ::
    "Reader \<Rightarrow> RefFile \<Rightarrow> u32 \<Rightarrow> u32 \<Rightarrow> u32 \<times> sector list \<times> RefFile" where
  "reader_plain_read_c reader f lba_start0 lba_len0 =
     (case ref_seeko f (LBA_TO_BYTES (rd_lba_start reader + lba_start0)) of
        (False, f1) \<Rightarrow> (0, [], f1)
      | (True, f1) \<Rightarrow>
          (case ref_read f1 (unat lba_len0) of
             (data, f2) \<Rightarrow> (of_nat (length data), data, f2)))"

definition reader_plain_write_c ::
    "Reader \<Rightarrow> RefFile \<Rightarrow> sector list \<Rightarrow> u32 \<Rightarrow> u32 \<Rightarrow> u32 \<times> RefFile" where
  "reader_plain_write_c reader f ptr lba_start0 lba_len0 =
     (case ref_seeko f (LBA_TO_BYTES (rd_lba_start reader + lba_start0)) of
        (False, f1) \<Rightarrow> (0, f1)
      | (True, f1) \<Rightarrow>
          (case ref_write f1 (take (unat lba_len0) ptr) of
             (k, f2) \<Rightarrow> (of_nat k, f2)))"

section \<open>Result codes\<close>

text \<open>
  The taxonomy of rvth.h, in the order of the description table of \<open>rvth_error\<close>
  (rvth.c, lines 56-119); \<open>RVTH_ERROR_SUCCESS\<close> is the return value 0.
\<close>

datatype RvtH_Errors =
    RVTH_ERROR_UNRECOGNIZED_FILE
  | RVTH_ERROR_NHCD_TABLE_MAGIC
  | RVTH_ERROR_NO_BANKS
  | RVTH_ERROR_BANK_UNKNOWN
  | RVTH_ERROR_BANK_EMPTY
  | RVTH_ERROR_BANK_DL_2
  | RVTH_ERROR_NOT_A_DEVICE
  | RVTH_ERROR_BANK_IS_DELETED
  | RVTH_ERROR_BANK_NOT_DELETED
  | RVTH_ERROR_NOT_HDD_IMAGE
  | RVTH_ERROR_NO_GAME_PARTITION
  | RVTH_ERROR_INVALID_BANK_COUNT
  | RVTH_ERROR_IS_HDD_IMAGE
  | RVTH_ERROR_IS_RETAIL_CRYPTO
  | RVTH_ERROR_IMAGE_TOO_BIG
  | RVTH_ERROR_BANK_NOT_EMPTY_OR_DELETED
  | RVTH_ERROR_NOT_WII_IMAGE
  | RVTH_ERROR_IS_UNENCRYPTED
  | RVTH_ERROR_IS_ENCRYPTED
  | RVTH_ERROR_PARTITION_TABLE_CORRUPTED
  | RVTH_ERROR_PARTITION_HEADER_CORRUPTED
  | RVTH_ERROR_ISSUER_UNKNOWN
  | RVTH_ERROR_IMPORT_DL_EXT_NO_BANK1
  | RVTH_ERROR_IMPORT_DL_LAST_BANK
  | RVTH_ERROR_BANK2DL_NOT_EMPTY_OR_DELETED
  | RVTH_ERROR_IMPORT_DL_NOT_CONTIGUOUS
  | RVTH_ERROR_NDEV_GCN_NOT_SUPPORTED

text \<open>
  The \<open>int\<close> return channel: 0, a negative POSIX errno, or a positive \<open>RvtH_Errors\<close> code.
\<close>

datatype ret_t = Success | Posix posix_errno | Rvth RvtH_Errors

section \<open>Bank entries and the RvtH object\<close>

text \<open>The enumerations of rvth.h, each in its declared order (the first value is 0).\<close>

datatype RvtH_BankType =
    RVTH_BankType_Empty
  | RVTH_BankType_Unknown
  | RVTH_BankType_GCN
  | RVTH_BankType_Wii_SL
  | RVTH_BankType_Wii_DL
  | RVTH_BankType_Wii_DL_Bank2

fun bank_type_val :: "RvtH_BankType \<Rightarrow> nat" where
  "bank_type_val RVTH_BankType_Empty = 0"
| "bank_type_val RVTH_BankType_Unknown = 1"
| "bank_type_val RVTH_BankType_GCN = 2"
| "bank_type_val RVTH_BankType_Wii_SL = 3"
| "bank_type_val RVTH_BankType_Wii_DL = 4"
| "bank_type_val RVTH_BankType_Wii_DL_Bank2 = 5"

datatype RvtH_CryptoType =
    RVTH_CryptoType_Unknown
  | RVTH_CryptoType_None
  | RVTH_CryptoType_Debug
  | RVTH_CryptoType_Retail
  | RVTH_CryptoType_Korean

fun crypto_type_val :: "RvtH_CryptoType \<Rightarrow> int" where
  "crypto_type_val RVTH_CryptoType_Unknown = 0"
| "crypto_type_val RVTH_CryptoType_None = 1"
| "crypto_type_val RVTH_CryptoType_Debug = 2"
| "crypto_type_val RVTH_CryptoType_Retail = 3"
| "crypto_type_val RVTH_CryptoType_Korean = 4"

datatype RvtH_SigType = RVTH_SigType_Unknown | RVTH_SigType_Debug | RVTH_SigType_Retail

datatype RvtH_SigStatus =
  RVTH_SigStatus_Unknown | RVTH_SigStatus_OK | RVTH_SigStatus_Invalid | RVTH_SigStatus_Fake

record RvtH_SigInfo =
  sig_type :: RvtH_SigType
  sig_status :: RvtH_SigStatus

text \<open>
  \<open>RvtH_BankEntry\<close>. \<open>reader\<close> is the pointer to the bank's Reader (\<open>None\<close> for NULL);
  the Reader's stream is the \<open>f_img\<close> of the RvtH object that owns the entry.
  \<open>discHeader\<close> is the cached copy of sector 0, one sector as the data model of the
  specification has it (\<open>GCN_DiscHeader\<close> is declared in gcn_structs.h, not among the
  sources).
\<close>

record RvtH_BankEntry =
  reader :: "Reader option"
  lba_start :: u32
  lba_len :: u32
  timestamp :: int
  type :: RvtH_BankType
  region_code :: u8
  is_deleted :: bool
  discHeader :: sector
  crypto_type :: RvtH_CryptoType
  ios_version :: u8
  ticket :: RvtH_SigInfo
  tmd :: RvtH_SigInfo

text \<open>
  \<open>RvtH\<close>. \<open>bank_count\<close> is an \<open>unsigned int\<close>; the code only compares it and computes
  \<open>bank_count - 1\<close> and \<open>bank + 1\<close> under guards that exclude wrap-around, so it is a
  natural number here. \<open>entries\<close> is the allocated array.
\<close>

record RvtH =
  f_img :: RefFile
  is_hdd :: bool
  bank_count :: nat
  entries :: "RvtH_BankEntry list"

text \<open>rvth.c, \<open>rvth_is_hdd\<close> (lines 556-563) and \<open>rvth_get_BankCount\<close> (570-578).\<close>

definition rvth_is_hdd :: "RvtH option \<Rightarrow> bool" where
  "rvth_is_hdd r = (case r of None \<Rightarrow> False | Some rvth \<Rightarrow> is_hdd rvth)"

definition rvth_get_BankCount :: "RvtH option \<Rightarrow> nat" where
  "rvth_get_BankCount r = (case r of None \<Rightarrow> 0 | Some rvth \<Rightarrow> bank_count rvth)"

text \<open>
  rvth.c, \<open>rvth_get_BankEntry\<close> (lines 587-604). The result is the returned pointer, as
  the index of the entry it points to (\<open>None\<close> for NULL), the value stored through \<open>pErr\<close>
  (\<open>None\<close> when nothing is stored), and the value assigned to \<open>errno\<close>.
\<close>

definition rvth_get_BankEntry ::
    "RvtH option \<Rightarrow> nat \<Rightarrow> nat option \<times> ret_t option \<times> posix_errno option" where
  "rvth_get_BankEntry r bank =
     (case r of
        None \<Rightarrow> (None, Some (Posix EINVAL), Some EINVAL)
      | Some rvth \<Rightarrow>
          if bank \<ge> bank_count rvth then (None, Some (Posix EINVAL), Some ERANGE)
          else (Some bank, None, None))"

section \<open>Extract: the length of the destination image\<close>

text \<open>\<open>pt_entry_t\<close> (ptbl.h): the fields of a partition-table entry that the code reads.\<close>

record pt_entry =
  pte_lba_start :: u32
  pte_lba_len :: u32

text \<open>rvth_extract, lines 310-312.\<close>

definition unenc_to_enc :: "RvtH_BankEntry \<Rightarrow> int \<Rightarrow> bool" where
  "unenc_to_enc entry recrypt_key =
     (bank_type_val (type entry) \<ge> bank_type_val RVTH_BankType_Wii_SL \<and>
      crypto_type entry = RVTH_CryptoType_None \<and>
      recrypt_key > crypto_type_val RVTH_CryptoType_Unknown)"

text \<open>rvth_extract, lines 327-333: \<open>lba_tmp\<close> and \<open>gcm_lba_len\<close> are \<open>uint32_t\<close>.\<close>

definition unenc_gcm_lba_len :: "pt_entry \<Rightarrow> u32" where
  "unenc_gcm_lba_len game_pte =
     (let lba_tmp = pte_lba_len game_pte - of_nat (BYTES_TO_LBA 0x8000);
          g0 = lba_tmp div 3968 * 4096;
          g1 = (if lba_tmp mod 3968 \<noteq> 0 then g0 + 4096 else g0)
      in g1 + (of_nat (BYTES_TO_LBA 0x20000) + pte_lba_start game_pte))"

text \<open>
  rvth_extract, lines 310-346: the length passed to \<open>rvth_create_gcm\<close>. \<open>game_pte\<close> is the
  result of \<open>rvth_ptbl_find_game(entry)\<close> (\<open>None\<close> for NULL) and \<open>prepend_sdk\<close> is
  \<open>flags & RVTH_EXTRACT_PREPEND_SDK_HEADER\<close>.
\<close>

definition rvth_extract_gcm_lba_len ::
    "RvtH_BankEntry \<Rightarrow> pt_entry option \<Rightarrow> int \<Rightarrow> bool \<Rightarrow> ret_t + u32" where
  "rvth_extract_gcm_lba_len entry game_pte recrypt_key prepend_sdk =
     (case (if unenc_to_enc entry recrypt_key
            then (case game_pte of
                    None \<Rightarrow> Inl (Rvth RVTH_ERROR_NO_GAME_PARTITION)
                  | Some pte \<Rightarrow> Inr (unenc_gcm_lba_len pte))
            else Inr (lba_len entry)) of
        Inl e \<Rightarrow> Inl e
      | Inr gcm_lba_len \<Rightarrow>
          if prepend_sdk then
            (if type entry = RVTH_BankType_GCN then Inl (Rvth RVTH_ERROR_NDEV_GCN_NOT_SUPPORTED)
             else Inr (gcm_lba_len + of_nat (BYTES_TO_LBA 32768)))
          else Inr gcm_lba_len)"

text \<open>
  The length as the specification words it, over the integers: \<open>raw = lba_len - 0x8000/512\<close>,
  \<open>data_out = ceil(raw/3968) * 4096\<close>, total \<open>data_out + 0x20000/512 + lba_start\<close>.
  \<open>ceil_div a b\<close> is the ceiling of \<open>a / b\<close> for a positive \<open>b\<close> (\<open>div\<close> rounds down).
\<close>

definition ceil_div :: "int \<Rightarrow> int \<Rightarrow> int" where
  "ceil_div a b = (if a mod b = 0 then a div b else a div b + 1)"

definition spec_unenc_gcm_lba_len :: "int \<Rightarrow> int \<Rightarrow> int" where
  "spec_unenc_gcm_lba_len part_lba_len part_lba_start =
     (let raw = part_lba_len - 0x8000 div 512;
          data_out = ceil_div raw 3968 * 4096
      in data_out + 0x20000 div 512 + part_lba_start)"

section \<open>The copy engine\<close>

text \<open>
  Declarations of gcn_structs.h that the engine uses and that are not among the sources,
  taken as parameters: the two magic fields of \<open>GCN_DiscHeader\<close>, each read from the
  first sector of a disc as a big-endian value.
\<close>

record disc_layout =
  magic_wii :: "sector \<Rightarrow> u32"
  magic_gcn :: "sector \<Rightarrow> u32"

definition WII_MAGIC :: u32 where
  "WII_MAGIC = 0x5D1C9EA3"

definition GCN_MAGIC :: u32 where
  "GCN_MAGIC = 0xC2339F3D"

text \<open>
  Modelled from the spec: \<open>rvth_is_block_empty\<close> (declared in rvth_p.h, not among the
  sources): "block of zeros detection as a pure function over a byte window".
\<close>

definition rvth_is_block_empty :: "sector list \<Rightarrow> bool" where
  "rvth_is_block_empty blk = list_all (\<lambda>b. b = 0) (concat blk)"

definition BUF_SIZE :: nat where
  "BUF_SIZE = 1048576"

definition LBA_COUNT_BUF :: u32 where
  "LBA_COUNT_BUF = 2048"

text \<open>
  What the surroundings of a copy supply: the \<open>malloc\<close>ed buffer (\<open>None\<close> when the
  allocation fails, otherwise \<open>LBA_COUNT_BUF\<close> sectors of unspecified content), the value
  of \<open>errno\<close> read after a failed allocation (\<open>None\<close> for 0), and \<open>time(NULL)\<close>.
\<close>

record copy_env =
  malloc_buf :: "sector list option"
  errno0 :: "posix_errno option"
  time_now :: int

datatype progress_type = RVTH_PROGRESS_EXTRACT | RVTH_PROGRESS_IMPORT | RVTH_PROGRESS_RECRYPT

text \<open>
  \<open>RvtH_Progress_State\<close>, without the two object pointers. The callback is a function
  of the state it is shown; \<open>None\<close> is a NULL callback.
\<close>

record RvtH_Progress_State =
  ps_type :: progress_type
  bank_rvth :: nat
  bank_gcm :: nat
  lba_processed :: u32
  lba_total :: u32

type_synonym RvtH_Progress_Callback = "(RvtH_Progress_State \<Rightarrow> bool) option"

text \<open>
  \<open>if (callback) { state.lba_processed = n; bRet = callback(&state); if (!bRet) ... }\<close>:
  \<open>True\<close> when the copy must stop.
\<close>

definition cancelled :: "RvtH_Progress_Callback \<Rightarrow> RvtH_Progress_State \<Rightarrow> u32 \<Rightarrow> bool" where
  "cancelled callback state n =
     (case callback of None \<Rightarrow> False | Some cb \<Rightarrow> \<not> cb (state\<lparr>lba_processed := n\<rparr>))"

text \<open>
  \<open>entry->reader->read(buf, lba, n)\<close> and \<open>entry->reader->write(ptr, lba, n)\<close>. The
  callers ignore the returned count ("TODO: Error handling"). \<open>None\<close> is undefined
  behaviour: a NULL \<open>reader\<close>, or a read longer than the buffer.
\<close>

definition rd_read ::
    "Reader option \<Rightarrow> RefFile \<Rightarrow> sector list \<Rightarrow> u32 \<Rightarrow> u32 \<Rightarrow> (sector list \<times> RefFile) option" where
  "rd_read r f buf lba n =
     (case r of
        None \<Rightarrow> None
      | Some rd \<Rightarrow>
          (case reader_plain_read rd f lba n of
             (k, data, f') \<Rightarrow>
               (case buf_store buf data of
                  None \<Rightarrow> None
                | Some buf' \<Rightarrow> Some (buf', f'))))"

definition rd_write ::
    "Reader option \<Rightarrow> RefFile \<Rightarrow> sector list \<Rightarrow> u32 \<Rightarrow> u32 \<Rightarrow> RefFile option" where
  "rd_write r f ptr lba n =
     (case r of
        None \<Rightarrow> None
      | Some rd \<Rightarrow> Some (snd (reader_plain_write rd f ptr lba n)))"

definition rd_flush :: "Reader option \<Rightarrow> RefFile \<Rightarrow> RefFile option" where
  "rd_flush r f = (case r of None \<Rightarrow> None | Some rd \<Rightarrow> Some (reader_plain_flush rd f))"

text \<open>\<open>&rvth->entries[i]\<close> dereferenced: \<open>None\<close> is a read outside the array.\<close>

definition entry_at :: "RvtH \<Rightarrow> nat \<Rightarrow> RvtH_BankEntry option" where
  "entry_at rvth i = (if i < length (entries rvth) then Some (entries rvth ! i) else None)"

subsection \<open>Extract: rvth_copy_to_gcm\<close>

text \<open>
  Lines 206-213: the scan of the 1 MiB buffer in 4 KiB blocks. \<open>sprs\<close> is the byte
  offset of the block, \<open>st\<close> the pair of \<open>lba_nonsparse\<close> and the destination stream.
\<close>

function sparse_scan_4k ::
    "Reader option \<Rightarrow> sector list \<Rightarrow> u32 \<Rightarrow> nat \<Rightarrow> u32 \<times> RefFile \<Rightarrow> (u32 \<times> RefFile) option" where
  "sparse_scan_4k rd buf lba_count sprs st =
     (if sprs < BUF_SIZE then
        (if rvth_is_block_empty (take 8 (drop (sprs div 512) buf))
         then sparse_scan_4k rd buf lba_count (sprs + 4096) st
         else (case rd_write rd (snd st) (take 8 (drop (sprs div 512) buf))
                      (lba_count + of_nat (sprs div 512)) 8 of
                 None \<Rightarrow> None
               | Some f' \<Rightarrow>
                   sparse_scan_4k rd buf lba_count (sprs + 4096)
                     (lba_count + of_nat (sprs div 512) + 7, f')))
      else Some st)"
  by pat_completeness auto
termination
  by (relation "measure (\<lambda>(rd, buf, lba_count, sprs, st). BUF_SIZE - sprs)")
     (auto simp: BUF_SIZE_def)

declare sparse_scan_4k.simps [simp del]

text \<open>
  Lines 234-240: the scan of the remainder in 512-byte blocks, while \<open>sprs < sz_left\<close>.
\<close>

function sparse_scan_512 ::
    "Reader option \<Rightarrow> sector list \<Rightarrow> u32 \<Rightarrow> nat \<Rightarrow> nat \<Rightarrow> u32 \<times> RefFile \<Rightarrow> (u32 \<times> RefFile) option" where
  "sparse_scan_512 rd buf lba_count sz_left sprs st =
     (if sprs < sz_left then
        (if rvth_is_block_empty (take 1 (drop (sprs div 512) buf))
         then sparse_scan_512 rd buf lba_count sz_left (sprs + 512) st
         else (case rd_write rd (snd st) (take 1 (drop (sprs div 512) buf))
                      (lba_count + of_nat (sprs div 512)) 1 of
                 None \<Rightarrow> None
               | Some f' \<Rightarrow>
                   sparse_scan_512 rd buf lba_count sz_left (sprs + 512)
                     (lba_count + of_nat (sprs div 512), f')))
      else Some st)"
  by pat_completeness auto
termination
  by (relation "measure (\<lambda>(rd, buf, lba_count, sz_left, sprs, st). sz_left - sprs)") auto

declare sparse_scan_512.simps [simp del]

text \<open>Lines 191-203: the disc header restored in the buffer of the first chunk.\<close>

definition restore_header :: "disc_layout \<Rightarrow> sector \<Rightarrow> sector list \<Rightarrow> sector list" where
  "restore_header lay hdr buf =
     (case buf of
        [] \<Rightarrow> buf
      | origHdr # rest \<Rightarrow>
          if magic_wii lay origHdr \<noteq> WII_MAGIC \<and> magic_gcn lay origHdr \<noteq> GCN_MAGIC
          then hdr # rest else buf)"

text \<open>
  The state of the copy loops: the buffer, \<open>lba_nonsparse\<close>, the source stream and the
  destination stream.
\<close>

type_synonym gcm_state = "sector list \<times> u32 \<times> RefFile \<times> RefFile"

text \<open>
  Lines 176-214: the loop over the 1 MiB chunks. \<open>lba_count\<close> runs over the multiples of
  2048 below \<open>lba_buf_max\<close>, itself a multiple of 2048 below \<open>2^32\<close>, so the counter
  does not wrap and is a natural number here. \<open>Inl\<close> is the exit through the callback
  (\<open>goto end\<close>), \<open>Inr\<close> the normal end of the loop, with the final \<open>lba_count\<close>.
\<close>

function copy_chunks_gcm ::
    "disc_layout \<Rightarrow> RvtH_Progress_Callback \<Rightarrow> RvtH_Progress_State \<Rightarrow> Reader option \<Rightarrow>
     Reader option \<Rightarrow> sector \<Rightarrow> nat \<Rightarrow> nat \<Rightarrow> gcm_state \<Rightarrow> (gcm_state + nat \<times> gcm_state) option" where
  "copy_chunks_gcm lay callback state rs rd hdr lba_buf_max lba_count st =
     (if lba_count < lba_buf_max then
        (if cancelled callback state (of_nat lba_count) then Some (Inl st)
         else (case st of (buf, lba_nonsparse, fs, fd) \<Rightarrow>
           (case rd_read rs fs buf (of_nat lba_count) LBA_COUNT_BUF of
              None \<Rightarrow> None
            | Some (buf1, fs1) \<Rightarrow>
                (case sparse_scan_4k rd
                        (if lba_count = 0 then restore_header lay hdr buf1 else buf1)
                        (of_nat lba_count) 0 (lba_nonsparse, fd) of
                   None \<Rightarrow> None
                 | Some (lba_nonsparse1, fd1) \<Rightarrow>
                     copy_chunks_gcm lay callback state rs rd hdr lba_buf_max (lba_count + 2048)
                       (if lba_count = 0 then restore_header lay hdr buf1 else buf1,
                        lba_nonsparse1, fs1, fd1)))))
      else Some (Inr (lba_count, st)))"
  by pat_completeness auto
termination
  by (relation "measure (\<lambda>(lay, callback, state, rs, rd, hdr, lba_buf_max, lba_count, st).
                  lba_buf_max - lba_count)") auto

declare copy_chunks_gcm.simps [simp del]

text \<open>Lines 84-107 (and 480-503): can the source bank be copied?\<close>

fun check_bank_type :: "RvtH_BankType \<Rightarrow> (ret_t \<times> posix_errno) option" where
  "check_bank_type RVTH_BankType_GCN = None"
| "check_bank_type RVTH_BankType_Wii_SL = None"
| "check_bank_type RVTH_BankType_Wii_DL = None"
| "check_bank_type RVTH_BankType_Unknown = Some (Rvth RVTH_ERROR_BANK_UNKNOWN, EIO)"
| "check_bank_type RVTH_BankType_Empty = Some (Rvth RVTH_ERROR_BANK_EMPTY, ENOENT)"
| "check_bank_type RVTH_BankType_Wii_DL_Bank2 = Some (Rvth RVTH_ERROR_BANK_DL_2, EIO)"

text \<open>Lines 141-157: the bank table information copied into the destination entry.\<close>

definition copy_bank_info :: "int \<Rightarrow> RvtH_BankEntry \<Rightarrow> RvtH_BankEntry \<Rightarrow> RvtH_BankEntry" where
  "copy_bank_info now entry_src entry_dest =
     entry_dest\<lparr>type := type entry_src,
       region_code := region_code entry_src,
       is_deleted := False,
       crypto_type := crypto_type entry_src,
       ios_version := ios_version entry_src,
       ticket := ticket entry_src,
       tmd := tmd entry_src,
       discHeader := discHeader entry_src,
       timestamp := (if timestamp entry_src \<ge> 0 then timestamp entry_src else now)\<rparr>"

text \<open>
  Lines 217-241: the remaining LBAs. \<open>sz_left\<close> is \<open>BYTES_TO_LBA(lba_left)\<close>, as the
  source has it.
\<close>

definition copy_tail_gcm ::
    "RvtH_Progress_Callback \<Rightarrow> RvtH_Progress_State \<Rightarrow> Reader option \<Rightarrow> Reader option \<Rightarrow>
     u32 \<Rightarrow> nat \<Rightarrow> gcm_state \<Rightarrow> (gcm_state + gcm_state) option" where
  "copy_tail_gcm callback state rs rd lba_copy_len lba_count st =
     (if (of_nat lba_count :: u32) < lba_copy_len then
        (if cancelled callback state (of_nat lba_count) then Some (Inl st)
         else (case st of (buf, lba_nonsparse, fs, fd) \<Rightarrow>
           (case rd_read rs fs buf (of_nat lba_count) (lba_copy_len - of_nat lba_count) of
              None \<Rightarrow> None
            | Some (buf1, fs1) \<Rightarrow>
                (case sparse_scan_512 rd buf1 (of_nat lba_count)
                        (BYTES_TO_LBA (unat (lba_copy_len - of_nat lba_count))) 0
                        (lba_nonsparse, fd) of
                   None \<Rightarrow> None
                 | Some (lba_nonsparse1, fd1) \<Rightarrow> Some (Inr (buf1, lba_nonsparse1, fs1, fd1))))))
      else Some (Inr st))"

text \<open>Lines 243-265: the last callback, the zeroed final sector and the flush.\<close>

definition copy_finish_gcm ::
    "RvtH_Progress_Callback \<Rightarrow> RvtH_Progress_State \<Rightarrow> Reader option \<Rightarrow> u32 \<Rightarrow> gcm_state \<Rightarrow>
     (gcm_state + gcm_state) option" where
  "copy_finish_gcm callback state rd lba_copy_len st =
     (if cancelled callback state lba_copy_len then Some (Inl st)
      else (case st of (buf, lba_nonsparse, fs, fd) \<Rightarrow>
        (if lba_nonsparse \<noteq> lba_copy_len - 1 then
           (case rd_write rd fd (buf[0 := zero_sector]) (lba_copy_len - 1) 1 of
              None \<Rightarrow> None
            | Some fd1 \<Rightarrow>
                (case rd_flush rd fd1 of
                   None \<Rightarrow> None
                 | Some fd2 \<Rightarrow> Some (Inr (buf[0 := zero_sector], lba_nonsparse, fs, fd2))))
         else (case rd_flush rd fd of
                 None \<Rightarrow> None
               | Some fd2 \<Rightarrow> Some (Inr (buf, lba_nonsparse, fs, fd2))))))"

text \<open>
  The result of a copy: the returned \<open>ret\<close>, the value assigned to \<open>errno\<close> (\<open>None\<close> when
  it is left alone), and the destination and source objects afterwards.
\<close>

type_synonym copy_result = "ret_t \<times> posix_errno option \<times> RvtH \<times> RvtH"

definition gcm_result ::
    "ret_t \<Rightarrow> posix_errno option \<Rightarrow> RvtH \<Rightarrow> RvtH_BankEntry \<Rightarrow> RvtH \<Rightarrow> gcm_state \<Rightarrow> copy_result" where
  "gcm_result ret err dest entry_dest src st =
     (case st of (buf, lba_nonsparse, fs, fd) \<Rightarrow>
        (ret, err, dest\<lparr>f_img := fd, entries := (entries dest)[0 := entry_dest]\<rparr>,
         src\<lparr>f_img := fs\<rparr>))"

text \<open>
  Lines 174-272, after the bank information is copied: the three stages in turn. On the
  exit through the callback \<open>err = ECANCELED\<close> and \<open>ret\<close> is what it was: 0.
\<close>

definition copy_run_gcm ::
    "disc_layout \<Rightarrow> RvtH_Progress_Callback \<Rightarrow> RvtH_Progress_State \<Rightarrow> RvtH_BankEntry \<Rightarrow>
     RvtH_BankEntry \<Rightarrow> gcm_state \<Rightarrow> (posix_errno option \<times> gcm_state) option" where
  "copy_run_gcm lay callback state entry_src entry_dest st0 =
     (case copy_chunks_gcm lay callback state (reader entry_src) (reader entry_dest)
             (discHeader entry_src)
             (unat (lba_len entry_dest AND NOT (LBA_COUNT_BUF - 1))) 0 st0 of
        None \<Rightarrow> None
      | Some (Inl st) \<Rightarrow> Some (Some ECANCELED, st)
      | Some (Inr (lba_count, st1)) \<Rightarrow>
          (case copy_tail_gcm callback state (reader entry_src) (reader entry_dest)
                  (lba_len entry_src) lba_count st1 of
             None \<Rightarrow> None
           | Some (Inl st) \<Rightarrow> Some (Some ECANCELED, st)
           | Some (Inr st2) \<Rightarrow>
               (case copy_finish_gcm callback state (reader entry_dest) (lba_len entry_src) st2 of
                  None \<Rightarrow> None
                | Some (Inl st) \<Rightarrow> Some (Some ECANCELED, st)
                | Some (Inr st3) \<Rightarrow> Some (None, st3))))"

text \<open>\<open>rvth_copy_to_gcm\<close> (lines 50-273) on two objects that are not NULL.\<close>

definition rvth_copy_to_gcm_body ::
    "disc_layout \<Rightarrow> copy_env \<Rightarrow> RvtH \<Rightarrow> RvtH \<Rightarrow> nat \<Rightarrow> RvtH_Progress_Callback \<Rightarrow>
     copy_result option" where
  "rvth_copy_to_gcm_body lay env dest src bank_src callback =
     (if bank_src \<ge> bank_count src then Some (Posix ERANGE, Some ERANGE, dest, src)
      else if is_hdd dest \<or> bank_count dest \<noteq> 1
        then Some (Rvth RVTH_ERROR_IS_HDD_IMAGE, Some EIO, dest, src)
      else (case entry_at src bank_src of
        None \<Rightarrow> None
      | Some entry_src \<Rightarrow>
       (case check_bank_type (type entry_src) of
          Some (ret, err) \<Rightarrow> Some (ret, Some err, dest, src)
        | None \<Rightarrow>
         (case malloc_buf env of
            None \<Rightarrow>
              Some (Posix (case errno0 env of None \<Rightarrow> ENOMEM | Some e \<Rightarrow> e),
                    Some (case errno0 env of None \<Rightarrow> ENOMEM | Some e \<Rightarrow> e), dest, src)
          | Some buf \<Rightarrow>
           (case entry_at dest 0 of
              None \<Rightarrow> None
            | Some entry_dest \<Rightarrow>
             (case ref_makeSparse (f_img dest) (LBA_TO_BYTES (lba_len entry_dest)) of
                (False, fd0) \<Rightarrow>
                  Some (Posix (case last_error fd0 of None \<Rightarrow> ENOMEM | Some e \<Rightarrow> e),
                        Some (case last_error fd0 of None \<Rightarrow> ENOMEM | Some e \<Rightarrow> e),
                        dest\<lparr>f_img := fd0\<rparr>, src)
              | (True, fd0) \<Rightarrow>
                 (case copy_run_gcm lay callback
                         \<lparr>ps_type = RVTH_PROGRESS_EXTRACT, bank_rvth = bank_src, bank_gcm = 0,
                          lba_processed = 0, lba_total = lba_len entry_src\<rparr>
                         entry_src entry_dest (buf, 0, f_img src, fd0) of
                    None \<Rightarrow> None
                  | Some (err, st) \<Rightarrow>
                      Some (gcm_result Success err dest
                              (copy_bank_info (time_now env) entry_src entry_dest) src st))))))))"

text \<open>\<open>rvth_copy_to_gcm\<close> with the NULL checks of lines 69-71.\<close>

definition rvth_copy_to_gcm ::
    "disc_layout \<Rightarrow> copy_env \<Rightarrow> RvtH option \<Rightarrow> RvtH option \<Rightarrow> nat \<Rightarrow> RvtH_Progress_Callback \<Rightarrow>
     (ret_t \<times> posix_errno option \<times> RvtH option \<times> RvtH option) option" where
  "rvth_copy_to_gcm lay env rvth_dest rvth_src bank_src callback =
     (case (rvth_dest, rvth_src) of
        (Some dest, Some src) \<Rightarrow>
          (case rvth_copy_to_gcm_body lay env dest src bank_src callback of
             None \<Rightarrow> None
           | Some (ret, err, dest1, src1) \<Rightarrow> Some (ret, err, Some dest1, Some src1))
      | _ \<Rightarrow> Some (Posix EINVAL, Some EINVAL, rvth_dest, rvth_src))"

subsection \<open>Import: rvth_copy_to_hdd and rvth_import\<close>

text \<open>
  reader_plain.cpp, \<open>reader_plain_open\<close> (lines 61-141), which \<open>Reader::open\<close> reaches for
  a plain image. \<open>alloc_error\<close> is \<open>None\<close> when \<open>malloc\<close> succeeds, otherwise the
  \<open>errno\<close> left by the failed allocation; \<open>file->size()\<close> is negative on a stream that
  cannot seek. The image type of the Reader is not modelled.
\<close>

definition reader_plain_open ::
    "posix_errno option \<Rightarrow> RefFile option \<Rightarrow> u32 \<Rightarrow> u32 \<Rightarrow> posix_errno + Reader" where
  "reader_plain_open alloc_error file lba_start0 lba_len0 =
     (case file of
        None \<Rightarrow> Inl EINVAL
      | Some f \<Rightarrow>
          if lba_start0 > 0 \<and> lba_len0 = 0 then Inl EINVAL
          else (case alloc_error of
                  Some e \<Rightarrow> Inl e
                | None \<Rightarrow>
                    if seek_fails f then Inl (case last_error f of None \<Rightarrow> EIO | Some e \<Rightarrow> e)
                    else Inr \<lparr>rd_lba_start = lba_start0,
                              rd_lba_len = (if lba_start0 = 0 \<and> lba_len0 = 0
                                            then of_nat (flen f) else lba_len0)\<rparr>))"

text \<open>
  What \<open>rvth_copy_to_hdd\<close> and \<open>rvth_import\<close> use and the sources do not hold, taken as
  parameters: two constants of nhcd_structs.h (in LBAs), \<open>rvth_make_writable\<close>,
  \<open>rvth_write_BankEntry\<close>, \<open>rvth_recrypt_partitions\<close>, \<open>rvth_recrypt_id\<close>, and the outcome
  of the allocation of a Reader.
\<close>

record rvth_ops =
  NHCD_BANK_SIZE_LBA :: nat
  NHCD_EXTBANKTABLE_BANK_1_SIZE_LBA :: nat
  rvth_make_writable :: "RvtH \<Rightarrow> ret_t \<times> RvtH"
  rvth_write_BankEntry :: "RvtH \<Rightarrow> nat \<Rightarrow> RvtH"
  rvth_recrypt_partitions ::
    "RvtH \<Rightarrow> nat \<Rightarrow> RvtH_CryptoType \<Rightarrow> RvtH_Progress_Callback \<Rightarrow> ret_t \<times> RvtH"
  rvth_recrypt_id :: "RvtH \<Rightarrow> nat \<Rightarrow> ret_t \<times> RvtH"
  reader_alloc_error :: "posix_errno option"

definition not_empty_or_deleted :: "RvtH_BankEntry \<Rightarrow> bool" where
  "not_empty_or_deleted e = (type e \<noteq> RVTH_BankType_Empty \<and> \<not> is_deleted e)"

text \<open>
  Lines 511-585: the size and Dual-Layer checks, in the order of the source. The outer
  \<open>None\<close> is a read outside the entries array; \<open>Some None\<close> is "no error".
\<close>

definition check_import_size ::
    "rvth_ops \<Rightarrow> RvtH \<Rightarrow> nat \<Rightarrow> RvtH_BankEntry \<Rightarrow> RvtH_BankEntry \<Rightarrow>
     (ret_t \<times> posix_errno) option option" where
  "check_import_size ops dest bank_dest entry_src entry_dest =
     (if type entry_src = RVTH_BankType_Wii_DL then
        (if bank_count dest > 8 \<and> bank_dest = 0
           then Some (Some (Rvth RVTH_ERROR_IMPORT_DL_EXT_NO_BANK1, EINVAL))
         else if bank_dest = bank_count dest - 1
           then Some (Some (Rvth RVTH_ERROR_IMPORT_DL_LAST_BANK, EINVAL))
         else if not_empty_or_deleted entry_dest
           then Some (Some (Rvth RVTH_ERROR_BANK_NOT_EMPTY_OR_DELETED, EEXIST))
         else (case entry_at dest (bank_dest + 1) of
                 None \<Rightarrow> None
               | Some entry_dest2 \<Rightarrow>
                   if not_empty_or_deleted entry_dest2
                     then Some (Some (Rvth RVTH_ERROR_BANK2DL_NOT_EMPTY_OR_DELETED, EEXIST))
                   else if unat (lba_len entry_src) > NHCD_BANK_SIZE_LBA ops * 2
                     then Some (Some (Rvth RVTH_ERROR_IMAGE_TOO_BIG, ENOSPC))
                   else Some None))
      else if unat (lba_len entry_src) > NHCD_BANK_SIZE_LBA ops
        then Some (Some (Rvth RVTH_ERROR_IMAGE_TOO_BIG, ENOSPC))
      else if bank_dest = 0 \<and> bank_count dest > 8 \<and>
              unat (lba_len entry_src) > NHCD_EXTBANKTABLE_BANK_1_SIZE_LBA ops
        then Some (Some (Rvth RVTH_ERROR_IMAGE_TOO_BIG, ENOSPC))
      else Some None)"

text \<open>Lines 511-593: the checks above, then "destination bank must be empty or deleted".\<close>

definition check_import ::
    "rvth_ops \<Rightarrow> RvtH \<Rightarrow> nat \<Rightarrow> RvtH_BankEntry \<Rightarrow> RvtH_BankEntry \<Rightarrow>
     (ret_t \<times> posix_errno) option option" where
  "check_import ops dest bank_dest entry_src entry_dest =
     (case check_import_size ops dest bank_dest entry_src entry_dest of
        None \<Rightarrow> None
      | Some (Some e) \<Rightarrow> Some (Some e)
      | Some None \<Rightarrow>
          if not_empty_or_deleted entry_dest
            then Some (Some (Rvth RVTH_ERROR_BANK_NOT_EMPTY_OR_DELETED, EEXIST))
          else Some None)"

type_synonym hdd_state = "sector list \<times> RefFile \<times> RefFile"

text \<open>Lines 673-692: the loop over the 1 MiB chunks, copied verbatim.\<close>

function copy_chunks_hdd ::
    "RvtH_Progress_Callback \<Rightarrow> RvtH_Progress_State \<Rightarrow> Reader option \<Rightarrow> Reader option \<Rightarrow>
     nat \<Rightarrow> nat \<Rightarrow> hdd_state \<Rightarrow> (hdd_state + nat \<times> hdd_state) option" where
  "copy_chunks_hdd callback state rs rd lba_buf_max lba_count st =
     (if lba_count < lba_buf_max then
        (if cancelled callback state (of_nat lba_count) then Some (Inl st)
         else (case st of (buf, fs, fd) \<Rightarrow>
           (case rd_read rs fs buf (of_nat lba_count) LBA_COUNT_BUF of
              None \<Rightarrow> None
            | Some (buf1, fs1) \<Rightarrow>
                (case rd_write rd fd buf1 (of_nat lba_count) LBA_COUNT_BUF of
                   None \<Rightarrow> None
                 | Some fd1 \<Rightarrow>
                     copy_chunks_hdd callback state rs rd lba_buf_max (lba_count + 2048)
                       (buf1, fs1, fd1)))))
      else Some (Inr (lba_count, st)))"
  by pat_completeness auto
termination
  by (relation "measure (\<lambda>(callback, state, rs, rd, lba_buf_max, lba_count, st).
                  lba_buf_max - lba_count)") auto

declare copy_chunks_hdd.simps [simp del]

text \<open>Lines 694-699: the remaining LBAs.\<close>

definition copy_tail_hdd ::
    "Reader option \<Rightarrow> Reader option \<Rightarrow> u32 \<Rightarrow> nat \<Rightarrow> hdd_state \<Rightarrow> hdd_state option" where
  "copy_tail_hdd rs rd lba_copy_len lba_count st =
     (if (of_nat lba_count :: u32) < lba_copy_len then
        (case st of (buf, fs, fd) \<Rightarrow>
           (case rd_read rs fs buf (of_nat lba_count) (lba_copy_len - of_nat lba_count) of
              None \<Rightarrow> None
            | Some (buf1, fs1) \<Rightarrow>
                (case rd_write rd fd buf1 (of_nat lba_count) (lba_copy_len - of_nat lba_count) of
                   None \<Rightarrow> None
                 | Some fd1 \<Rightarrow> Some (buf1, fs1, fd1))))
      else Some st)"

text \<open>
  Lines 672-713: the copy. The first component is \<open>err\<close> (\<open>ECANCELED\<close> on the exit
  through the callback), the second says whether the end of the copy was reached, where the
  buffers are flushed and the bank table is updated.
\<close>

definition copy_run_hdd ::
    "RvtH_Progress_Callback \<Rightarrow> RvtH_Progress_State \<Rightarrow> RvtH_BankEntry \<Rightarrow> RvtH_BankEntry \<Rightarrow>
     hdd_state \<Rightarrow> (posix_errno option \<times> bool \<times> hdd_state) option" where
  "copy_run_hdd callback state entry_src entry_dest st0 =
     (case copy_chunks_hdd callback state (reader entry_src) (reader entry_dest)
             (unat (lba_len entry_dest AND NOT (LBA_COUNT_BUF - 1))) 0 st0 of
        None \<Rightarrow> None
      | Some (Inl st) \<Rightarrow> Some (Some ECANCELED, False, st)
      | Some (Inr (lba_count, st1)) \<Rightarrow>
          (case copy_tail_hdd (reader entry_src) (reader entry_dest) (lba_len entry_src)
                  lba_count st1 of
             None \<Rightarrow> None
           | Some (buf, fs, fd) \<Rightarrow>
               if cancelled callback state (lba_len entry_src)
                 then Some (Some ECANCELED, False, (buf, fs, fd))
               else (case rd_flush (reader entry_dest) fd of
                       None \<Rightarrow> None
                     | Some fd1 \<Rightarrow> Some (None, True, (buf, fs, fd1)))))"

definition hdd_result ::
    "rvth_ops \<Rightarrow> ret_t \<Rightarrow> RvtH \<Rightarrow> nat \<Rightarrow> RvtH_BankEntry \<Rightarrow> RvtH \<Rightarrow>
     posix_errno option \<times> bool \<times> hdd_state \<Rightarrow> copy_result" where
  "hdd_result ops ret dest bank_dest entry_dest src r =
     (case r of (err, finished, buf, fs, fd) \<Rightarrow>
        (ret, err,
         (if finished
          then rvth_write_BankEntry ops
                 (dest\<lparr>f_img := fd, entries := (entries dest)[bank_dest := entry_dest]\<rparr>) bank_dest
          else dest\<lparr>f_img := fd, entries := (entries dest)[bank_dest := entry_dest]\<rparr>),
         src\<lparr>f_img := fs\<rparr>))"

text \<open>
  Lines 607-619: the Reader of the destination bank, set up when the entry has none.
  \<open>Inl\<close> is the failure of \<open>Reader::open\<close>.
\<close>

definition setup_dest_reader :: "rvth_ops \<Rightarrow> RefFile \<Rightarrow> RvtH_BankEntry \<Rightarrow> posix_errno + RvtH_BankEntry" where
  "setup_dest_reader ops f entry_dest =
     (case reader entry_dest of
        Some r \<Rightarrow> Inr entry_dest
      | None \<Rightarrow>
          (case reader_plain_open (reader_alloc_error ops) (Some f)
                  (lba_start entry_dest) (lba_len entry_dest) of
             Inl e \<Rightarrow> Inl e
           | Inr r \<Rightarrow> Inr (entry_dest\<lparr>reader := Some r\<rparr>)))"

text \<open>Lines 636-653: the bank table information, with the length of the source.\<close>

definition copy_bank_info_hdd :: "int \<Rightarrow> RvtH_BankEntry \<Rightarrow> RvtH_BankEntry \<Rightarrow> RvtH_BankEntry" where
  "copy_bank_info_hdd now entry_src entry_dest =
     copy_bank_info now entry_src (entry_dest\<lparr>lba_len := lba_len entry_src\<rparr>)"

text \<open>
  \<open>rvth_copy_to_hdd\<close> (lines 445-727) on two objects that are not NULL. After
  \<open>rvth_make_writable\<close> the pointer \<open>entry_dest\<close> is read again in the object it returns.
  When \<open>Reader::open\<close> fails, or the callback stops the copy, \<open>err\<close> is set and \<open>ret\<close> is
  what it was: 0.
\<close>

definition rvth_copy_to_hdd_body ::
    "rvth_ops \<Rightarrow> copy_env \<Rightarrow> RvtH \<Rightarrow> nat \<Rightarrow> RvtH \<Rightarrow> nat \<Rightarrow> RvtH_Progress_Callback \<Rightarrow>
     copy_result option" where
  "rvth_copy_to_hdd_body ops env dest bank_dest src bank_src callback =
     (if bank_src \<ge> bank_count src \<or> bank_dest \<ge> bank_count dest
        then Some (Posix ERANGE, Some ERANGE, dest, src)
      else if \<not> is_hdd dest then Some (Rvth RVTH_ERROR_NOT_HDD_IMAGE, Some EIO, dest, src)
      else (case entry_at src bank_src of
        None \<Rightarrow> None
      | Some entry_src \<Rightarrow>
       (case check_bank_type (type entry_src) of
          Some (ret, err) \<Rightarrow> Some (ret, Some err, dest, src)
        | None \<Rightarrow>
         (case entry_at dest bank_dest of
            None \<Rightarrow> None
          | Some entry_dest0 \<Rightarrow>
           (case check_import ops dest bank_dest entry_src entry_dest0 of
              None \<Rightarrow> None
            | Some (Some (ret, err)) \<Rightarrow> Some (ret, Some err, dest, src)
            | Some None \<Rightarrow>
             (case rvth_make_writable ops dest of
                (Posix e, dest1) \<Rightarrow> Some (Posix e, Some e, dest1, src)
              | (Rvth e, dest1) \<Rightarrow> Some (Rvth e, Some EROFS, dest1, src)
              | (Success, dest1) \<Rightarrow>
               (case entry_at dest1 bank_dest of
                  None \<Rightarrow> None
                | Some entry_dest1 \<Rightarrow>
                 (case setup_dest_reader ops (f_img dest1) entry_dest1 of
                    Inl e \<Rightarrow> Some (Success, Some e, dest1, src)
                  | Inr entry_dest2 \<Rightarrow>
                   (case malloc_buf env of
                      None \<Rightarrow>
                        Some (Posix (case errno0 env of None \<Rightarrow> ENOMEM | Some e \<Rightarrow> e),
                              Some (case errno0 env of None \<Rightarrow> ENOMEM | Some e \<Rightarrow> e),
                              dest1\<lparr>entries := (entries dest1)[bank_dest := entry_dest2]\<rparr>, src)
                    | Some buf \<Rightarrow>
                       (case copy_run_hdd callback
                               \<lparr>ps_type = RVTH_PROGRESS_IMPORT, bank_rvth = bank_dest,
                                bank_gcm = bank_src, lba_processed = 0,
                                lba_total = lba_len entry_src\<rparr>
                               entry_src (copy_bank_info_hdd (time_now env) entry_src entry_dest2)
                               (buf, f_img src, f_img dest1) of
                          None \<Rightarrow> None
                        | Some r \<Rightarrow>
                            Some (hdd_result ops Success dest1 bank_dest
                                    (copy_bank_info_hdd (time_now env) entry_src entry_dest2)
                                    src r)))))))))))"

definition rvth_copy_to_hdd ::
    "rvth_ops \<Rightarrow> copy_env \<Rightarrow> RvtH option \<Rightarrow> nat \<Rightarrow> RvtH option \<Rightarrow> nat \<Rightarrow> RvtH_Progress_Callback \<Rightarrow>
     (ret_t \<times> posix_errno option \<times> RvtH option \<times> RvtH option) option" where
  "rvth_copy_to_hdd ops env rvth_dest bank_dest rvth_src bank_src callback =
     (case (rvth_dest, rvth_src) of
        (Some dest, Some src) \<Rightarrow>
          (case rvth_copy_to_hdd_body ops env dest bank_dest src bank_src callback of
             None \<Rightarrow> None
           | Some (ret, err, dest1, src1) \<Rightarrow> Some (ret, err, Some dest1, Some src1))
      | _ \<Rightarrow> Some (Posix EINVAL, Some EINVAL, rvth_dest, rvth_src))"

text \<open>rvth_import, lines 780-786: must the imported bank be converted to Debug?\<close>

definition needs_debug_recrypt :: "RvtH_BankEntry \<Rightarrow> bool" where
  "needs_debug_recrypt entry =
     ((type entry = RVTH_BankType_Wii_SL \<or> type entry = RVTH_BankType_Wii_DL) \<and>
      (crypto_type entry = RVTH_CryptoType_Retail \<or>
       crypto_type entry = RVTH_CryptoType_Korean \<or>
       sig_status (ticket entry) \<noteq> RVTH_SigStatus_OK \<or>
       sig_status (tmd entry) \<noteq> RVTH_SigStatus_OK))"

text \<open>
  \<open>rvth_import\<close> (lines 738-801). \<open>filename_ok\<close> is \<open>filename && filename[0] != 0\<close>;
  \<open>opened\<close> is what \<open>rvth_open(filename, &ret)\<close> returns and stores in \<open>ret\<close>. The result
  is the returned code and the RVT-H object afterwards.
\<close>

definition rvth_import ::
    "rvth_ops \<Rightarrow> copy_env \<Rightarrow> RvtH option \<Rightarrow> nat \<Rightarrow> bool \<Rightarrow> RvtH option \<times> ret_t \<Rightarrow>
     RvtH_Progress_Callback \<Rightarrow> (ret_t \<times> RvtH option) option" where
  "rvth_import ops env rvth bank filename_ok opened callback =
     (case rvth of
        None \<Rightarrow> Some (Posix EINVAL, rvth)
      | Some dest \<Rightarrow>
          if \<not> filename_ok then Some (Posix EINVAL, rvth)
          else if bank \<ge> bank_count dest then Some (Posix ERANGE, rvth)
          else (case opened of
                  (None, ret) \<Rightarrow> Some (if ret = Success then Posix EIO else ret, rvth)
                | (Some src, ret0) \<Rightarrow>
                    if is_hdd src \<or> bank_count src > 1
                      then Some (Rvth RVTH_ERROR_IS_HDD_IMAGE, rvth)
                    else if bank_count src = 0 then Some (Rvth RVTH_ERROR_NO_BANKS, rvth)
                    else (case rvth_copy_to_hdd_body ops env dest bank src 0 callback of
                            None \<Rightarrow> None
                          | Some (ret, err, dest1, src1) \<Rightarrow>
                              if ret = Success then
                                (case rvth_get_BankEntry (Some dest1) bank of
                                   (None, pErr, e) \<Rightarrow>
                                     (case rvth_recrypt_id ops dest1 bank of
                                        (ret2, dest2) \<Rightarrow> Some (ret2, Some dest2))
                                 | (Some i, pErr, e) \<Rightarrow>
                                     (case entry_at dest1 i of
                                        None \<Rightarrow> None
                                      | Some entry \<Rightarrow>
                                          if needs_debug_recrypt entry then
                                            (case rvth_recrypt_partitions ops dest1 bank
                                                    RVTH_CryptoType_Debug callback of
                                               (ret2, dest2) \<Rightarrow> Some (ret2, Some dest2))
                                          else
                                            (case rvth_recrypt_id ops dest1 bank of
                                               (ret2, dest2) \<Rightarrow> Some (ret2, Some dest2))))
                              else Some (ret, Some dest1))))"

section \<open>Opening an HDD image: rvth_open_hdd\<close>

text \<open>
  Declarations of nhcd_structs.h that \<open>rvth_open_hdd\<close> uses and the sources do not hold,
  taken as parameters: the address of the bank table, the macro \<open>NHCD_BANK_START_LBA\<close>,
  the fields of \<open>NHCD_BankTable_Header\<close> and \<open>NHCD_BankEntry\<close> (each read from a
  512-byte block, 32-bit fields after \<open>be32_to_cpu\<close>), and the on-disk bank type codes.
\<close>

record nhcd_layout =
  NHCD_BANKTABLE_ADDRESS_LBA :: u32
  NHCD_BANK_START_LBA :: "nat \<Rightarrow> nat \<Rightarrow> u32"
  header_magic :: "sector \<Rightarrow> u32"
  header_bank_count :: "sector \<Rightarrow> u32"
  entry_type :: "sector \<Rightarrow> u32"
  entry_lba_start :: "sector \<Rightarrow> u32"
  entry_lba_len :: "sector \<Rightarrow> u32"
  entry_timestamp :: "sector \<Rightarrow> u8 list"
  NHCD_BankType_Empty :: u32
  NHCD_BankType_GCN :: u32
  NHCD_BankType_Wii_SL :: u32
  NHCD_BankType_Wii_DL :: u32

text \<open>The magic of the bank table header: the four characters "NHCD".\<close>

definition NHCD_BANKTABLE_MAGIC :: u32 where
  "NHCD_BANKTABLE_MAGIC = 0x4E484344"

text \<open>
  What the surroundings of \<open>rvth_open_hdd\<close> supply: the value of \<open>errno\<close> where the code
  reads it (\<open>None\<close> for 0), the outcome of the two \<open>calloc\<close>s, and
  \<open>rvth_init_BankEntry\<close> (bank_init.c, not among the sources), which fills an entry from
  the type, the LBAs and the timestamp it is given and may read the stream.
\<close>

record open_env =
  open_errno :: "posix_errno option"
  calloc_rvth_ok :: bool
  calloc_entries_ok :: bool
  rvth_init_BankEntry ::
    "RefFile \<Rightarrow> RvtH_BankType \<Rightarrow> u32 \<Rightarrow> u32 \<Rightarrow> u8 list \<Rightarrow> RvtH_BankEntry \<times> RefFile"

text \<open>An entry as \<open>calloc\<close> leaves it: every field zero.\<close>

definition zero_SigInfo :: RvtH_SigInfo where
  "zero_SigInfo = \<lparr>sig_type = RVTH_SigType_Unknown, sig_status = RVTH_SigStatus_Unknown\<rparr>"

definition zero_BankEntry :: RvtH_BankEntry where
  "zero_BankEntry =
     \<lparr>reader = None, lba_start = 0, lba_len = 0, timestamp = 0,
      type = RVTH_BankType_Empty, region_code = 0, is_deleted = False,
      discHeader = zero_sector, crypto_type = RVTH_CryptoType_Unknown, ios_version = 0,
      ticket = zero_SigInfo, tmd = zero_SigInfo\<rparr>"

text \<open>\<open>err = errno; if (err == 0) err = dflt; ret = -err;\<close>\<close>

definition errno_or :: "posix_errno option \<Rightarrow> posix_errno \<Rightarrow> posix_errno" where
  "errno_or e dflt = (case e of None \<Rightarrow> dflt | Some x \<Rightarrow> x)"

text \<open>Lines 407-429: the switch on the on-disk bank type.\<close>

definition nhcd_bank_type :: "nhcd_layout \<Rightarrow> u32 \<Rightarrow> RvtH_BankType" where
  "nhcd_bank_type lay t =
     (if t = NHCD_BankType_Empty lay then RVTH_BankType_Empty
      else if t = NHCD_BankType_GCN lay then RVTH_BankType_GCN
      else if t = NHCD_BankType_Wii_SL lay then RVTH_BankType_Wii_SL
      else if t = NHCD_BankType_Wii_DL lay then RVTH_BankType_Wii_DL
      else RVTH_BankType_Unknown)"

text \<open>
  Lines 373-447: the loop over the bank slots. \<open>ents\<close> is the entries array, \<open>f\<close> the
  stream, \<open>addr\<close> the byte address of the slot's table entry. \<open>Inl\<close> is \<open>goto fail\<close>
  with \<open>ret\<close>, \<open>err\<close> and the entries array as it is then.
\<close>

function open_hdd_loop ::
    "nhcd_layout \<Rightarrow> open_env \<Rightarrow> nat \<Rightarrow> nat \<Rightarrow> int \<Rightarrow> RvtH_BankEntry list \<times> RefFile \<Rightarrow>
     (ret_t \<times> posix_errno \<times> RvtH_BankEntry list) + (RvtH_BankEntry list \<times> RefFile)" where
  "open_hdd_loop lay env n i addr st =
     (if i < n then
        (case st of (ents, f) \<Rightarrow>
          if i > 0 \<and> type (ents ! (i - 1)) = RVTH_BankType_Wii_DL then
            open_hdd_loop lay env n (i + 1) (addr + 512)
              (ents[i := (ents ! i)\<lparr>type := RVTH_BankType_Wii_DL_Bank2, timestamp := - 1\<rparr>], f)
          else
            (case ref_seeko f addr of
               (False, f1) \<Rightarrow>
                 Inl (Posix (errno_or (open_errno env) EIO), errno_or (open_errno env) EIO,
                      ents)
             | (True, f1) \<Rightarrow>
                 (case ref_read f1 1 of
                    ([nhcd_entry], f2) \<Rightarrow>
                      (case rvth_init_BankEntry env f2
                              (nhcd_bank_type lay (entry_type lay nhcd_entry))
                              (if bank_type_val (nhcd_bank_type lay (entry_type lay nhcd_entry))
                                    \<ge> bank_type_val RVTH_BankType_GCN \<and>
                                  entry_lba_start lay nhcd_entry \<noteq> 0 \<and>
                                  entry_lba_len lay nhcd_entry \<noteq> 0
                               then entry_lba_start lay nhcd_entry
                               else NHCD_BANK_START_LBA lay i n)
                              (if bank_type_val (nhcd_bank_type lay (entry_type lay nhcd_entry))
                                    \<ge> bank_type_val RVTH_BankType_GCN \<and>
                                  entry_lba_start lay nhcd_entry \<noteq> 0 \<and>
                                  entry_lba_len lay nhcd_entry \<noteq> 0
                               then entry_lba_len lay nhcd_entry
                               else 0)
                              (entry_timestamp lay nhcd_entry) of
                         (entry, f3) \<Rightarrow>
                           open_hdd_loop lay env n (i + 1) (addr + 512) (ents[i := entry], f3))
                  | (data, f2) \<Rightarrow>
                      Inl (Posix (errno_or (open_errno env) EIO), errno_or (open_errno env) EIO,
                           ents))))
      else Inr st)"
  by pat_completeness auto
termination
  by (relation "measure (\<lambda>(lay, env, n, i, addr, st). n - i)") auto

declare open_hdd_loop.simps [simp del]

text \<open>
  \<open>rvth_close\<close> (lines 524-549), on the object as the \<open>fail:\<close> path of \<open>rvth_open_hdd\<close>
  holds it: \<open>None\<close> is the NULL pointer; of an allocated object the argument gives the
  bank count and the \<open>entries\<close> pointer, \<open>None\<close> for NULL (what \<open>calloc\<close> left there). The
  loop reads \<open>rvth->entries[i].reader\<close> for every \<open>i\<close> below the bank count: through a NULL
  \<open>entries\<close> pointer that read is undefined, the value \<open>None\<close>. \<open>reader_close\<close>, \<open>free\<close> and
  \<open>ref_close\<close> only release memory and references, which this model does not hold.
\<close>

function rvth_close_loop :: "RvtH_BankEntry list option \<Rightarrow> nat \<Rightarrow> nat \<Rightarrow> unit option" where
  "rvth_close_loop entries_ptr n i =
     (if i < n then
        (case entries_ptr of
           None \<Rightarrow> None
         | Some ents \<Rightarrow> rvth_close_loop entries_ptr n (i + 1))
      else Some ())"
  by pat_completeness auto
termination
  by (relation "measure (\<lambda>(entries_ptr, n, i). n - i)") auto

declare rvth_close_loop.simps [simp del]

definition rvth_close :: "(nat \<times> RvtH_BankEntry list option) option \<Rightarrow> unit option" where
  "rvth_close rvth =
     (case rvth of
        None \<Rightarrow> Some ()
      | Some (n, entries_ptr) \<Rightarrow> rvth_close_loop entries_ptr n 0)"

text \<open>
  Lines 452-461, the label \<open>fail:\<close>: \<open>rvth_close(rvth)\<close>, then \<open>ret\<close> is stored through
  \<open>pErr\<close>, \<open>err\<close> in \<open>errno\<close>, and NULL is returned.
\<close>

definition open_hdd_fail ::
    "(nat \<times> RvtH_BankEntry list option) option \<Rightarrow> ret_t \<Rightarrow> posix_errno \<Rightarrow>
     ((ret_t \<times> posix_errno) + RvtH) option" where
  "open_hdd_fail rvth ret err =
     (case rvth_close rvth of
        None \<Rightarrow> None
      | Some u \<Rightarrow> Some (Inl (ret, err)))"

text \<open>
  \<open>rvth_open_hdd\<close> (lines 287-462). \<open>Some (Inl (ret, err))\<close> is the failure: NULL is
  returned, \<open>ret\<close> is stored through \<open>pErr\<close> and \<open>err\<close> in \<open>errno\<close>. \<open>Some (Inr rvth)\<close> is the
  object returned. \<open>None\<close> is undefined behaviour: the NULL \<open>entries\<close> pointer read in
  \<open>rvth_close\<close>. The bank count is stored in the object (line 342) before it is tested and
  before \<open>entries\<close> is allocated.
\<close>

definition rvth_open_hdd ::
    "nhcd_layout \<Rightarrow> open_env \<Rightarrow> RefFile \<Rightarrow> ((ret_t \<times> posix_errno) + RvtH) option" where
  "rvth_open_hdd lay env f_img0 =
     (case ref_seeko f_img0 (LBA_TO_BYTES (NHCD_BANKTABLE_ADDRESS_LBA lay)) of
        (False, f1) \<Rightarrow>
          open_hdd_fail None (Posix (errno_or (open_errno env) EIO))
            (errno_or (open_errno env) EIO)
      | (True, f1) \<Rightarrow>
          (case ref_read f1 1 of
             ([nhcd_header], f2) \<Rightarrow>
               if header_magic lay nhcd_header \<noteq> NHCD_BANKTABLE_MAGIC
                 then open_hdd_fail None (Rvth RVTH_ERROR_NHCD_TABLE_MAGIC) EIO
               else if \<not> calloc_rvth_ok env
                 then open_hdd_fail None (Posix (errno_or (open_errno env) ENOMEM))
                        (errno_or (open_errno env) ENOMEM)
               else if unat (header_bank_count lay nhcd_header) < 8 \<or>
                       unat (header_bank_count lay nhcd_header) > 32
                 then open_hdd_fail (Some (unat (header_bank_count lay nhcd_header), None))
                        (Posix (errno_or (open_errno env) ENOMEM))
                        (errno_or (open_errno env) ENOMEM)
               else if \<not> calloc_entries_ok env
                 then open_hdd_fail (Some (unat (header_bank_count lay nhcd_header), None))
                        (Posix (errno_or (open_errno env) ENOMEM))
                        (errno_or (open_errno env) ENOMEM)
               else
                 (case open_hdd_loop lay env (unat (header_bank_count lay nhcd_header)) 0
                         ((LBA_TO_BYTES (NHCD_BANKTABLE_ADDRESS_LBA lay) + 512) mod 4294967296)
                         (replicate (unat (header_bank_count lay nhcd_header)) zero_BankEntry,
                          f2) of
                    Inl (ret, err, ents) \<Rightarrow>
                      open_hdd_fail
                        (Some (unat (header_bank_count lay nhcd_header), Some ents)) ret err
                  | Inr (ents, f3) \<Rightarrow>
                      Some (Inr \<lparr>f_img = f3, is_hdd = True,
                                 bank_count = unat (header_bank_count lay nhcd_header),
                                 entries = ents\<rparr>))
           | (data, f2) \<Rightarrow>
               open_hdd_fail None (Posix (errno_or (open_errno env) EIO))
                 (errno_or (open_errno env) EIO)))"

section \<open>Auxiliary definitions\<close>

text \<open>
  The computation of rvth_extract, lines 327-333, on natural numbers, every step modulo
  \<open>2^32\<close> (\<open>gcm_nat\<close>), and without wrap-around (\<open>exact_nat\<close>).
\<close>

definition gcm_nat :: "nat \<Rightarrow> nat \<Rightarrow> nat" where
  "gcm_nat L S =
     (let t = (L + 4294967296 - 64) mod 4294967296;
          g0 = (t div 3968 * 4096) mod 4294967296;
          g1 = (if t mod 3968 \<noteq> 0 then (g0 + 4096) mod 4294967296 else g0)
      in (g1 + (256 + S) mod 4294967296) mod 4294967296)"

definition exact_nat :: "nat \<Rightarrow> nat \<Rightarrow> nat" where
  "exact_nat L S =
     (L - 64) div 3968 * 4096 + (if (L - 64) mod 3968 \<noteq> 0 then 4096 else 0) + 256 + S"

text \<open>The destination stream of a copy state.\<close>

definition gcm_fd :: "gcm_state \<Rightarrow> RefFile" where
  "gcm_fd st = snd (snd (snd st))"

text \<open>
  The entry that \<open>rvth_open_hdd\<close> leaves after a dual-layer bank: what \<open>calloc\<close>
  returned, with the type and the timestamp set.
\<close>

definition dl_bank2_entry :: RvtH_BankEntry where
  "dl_bank2_entry = zero_BankEntry\<lparr>type := RVTH_BankType_Wii_DL_Bank2, timestamp := - 1\<rparr>"

section \<open>Concrete inputs\<close>

text \<open>
  The objects at which the theorems below are evaluated. \<open>be32_at s off\<close> is the
  big-endian 32-bit value of the four bytes of \<open>s\<close> at offset \<open>off\<close>.
\<close>

definition be32_at :: "sector \<Rightarrow> nat \<Rightarrow> u32" where
  "be32_at s off = of_nat (foldl (\<lambda>a b. a * 256 + unat b) 0 (take 4 (drop off s)))"

definition fill_sector :: "u8 \<Rightarrow> sector" where
  "fill_sector b = replicate 512 b"

definition blank_file :: RefFile where
  "blank_file = \<lparr>content = (\<lambda>_. zero_sector), flen = 0, fpos = 0, iolog = [],
     seek_fails = False, sparse_fails = False, last_error = None\<rparr>"

definition w_reader :: Reader where
  "w_reader = \<lparr>rd_lba_start = 0, rd_lba_len = 100\<rparr>"

definition w_file100 :: RefFile where
  "w_file100 = blank_file\<lparr>flen := 100\<rparr>"


text \<open>A Wii bank stored unencrypted, and game partitions for it.\<close>

definition w_unenc_entry :: RvtH_BankEntry where
  "w_unenc_entry = zero_BankEntry\<lparr>type := RVTH_BankType_Wii_SL,
     crypto_type := RVTH_CryptoType_None, lba_len := 9000\<rparr>"

definition w_pte_empty :: pt_entry where
  "w_pte_empty = \<lparr>pte_lba_start = 0, pte_lba_len = 0\<rparr>"

definition w_pte :: pt_entry where
  "w_pte = \<lparr>pte_lba_start = 1024, pte_lba_len = 8000\<rparr>"

text \<open>
  A bank table layout for the examples, with the fields in the order the specification
  lists them, and a stand-in for \<open>rvth_init_BankEntry\<close> that stores the type and the LBAs
  it is given and reads nothing.
\<close>

definition w_nhcd_layout :: nhcd_layout where
  "w_nhcd_layout =
     \<lparr>NHCD_BANKTABLE_ADDRESS_LBA = 0x300000,
      NHCD_BANK_START_LBA = (\<lambda>i n. of_nat (0x300000 + 1 + n + i * 0x8C4A00)),
      header_magic = (\<lambda>s. be32_at s 0),
      header_bank_count = (\<lambda>s. be32_at s 4),
      entry_type = (\<lambda>s. be32_at s 0),
      entry_lba_start = (\<lambda>s. be32_at s 8),
      entry_lba_len = (\<lambda>s. be32_at s 12),
      entry_timestamp = (\<lambda>s. take 14 (drop 16 s)),
      NHCD_BankType_Empty = 0,
      NHCD_BankType_GCN = 0x4743314C,
      NHCD_BankType_Wii_SL = 0x4E4E314C,
      NHCD_BankType_Wii_DL = 0x4E4E324C\<rparr>"

definition w_init_BankEntry ::
    "RefFile \<Rightarrow> RvtH_BankType \<Rightarrow> u32 \<Rightarrow> u32 \<Rightarrow> u8 list \<Rightarrow> RvtH_BankEntry \<times> RefFile" where
  "w_init_BankEntry f t s l ts =
     (zero_BankEntry\<lparr>type := t, lba_start := s, lba_len := l, timestamp := - 1\<rparr>, f)"

definition w_open_env :: open_env where
  "w_open_env = \<lparr>open_errno = None, calloc_rvth_ok = True, calloc_entries_ok = True,
     rvth_init_BankEntry = w_init_BankEntry\<rparr>"

text \<open>A bank table header with the magic "NHCD" and the bank count \<open>n\<close>.\<close>

definition w_nhcd_header :: "u8 \<Rightarrow> sector" where
  "w_nhcd_header n = [0x4E, 0x48, 0x43, 0x44, 0, 0, 0, n] @ replicate 504 0"

text \<open>An HDD image whose bank table header announces 7 banks.\<close>

definition w_hdd_7banks :: RefFile where
  "w_hdd_7banks = blank_file\<lparr>content := (\<lambda>i. if i = 3145728 then w_nhcd_header 7 else zero_sector),
     flen := 3145737\<rparr>"

text \<open>An HDD image whose bank table header announces no bank at all.\<close>

definition w_hdd_0banks :: RefFile where
  "w_hdd_0banks = blank_file\<lparr>content := (\<lambda>i. if i = 3145728 then w_nhcd_header 0 else zero_sector),
     flen := 3145737\<rparr>"

text \<open>
  The layout of \<open>GCN_DiscHeader\<close> in the examples: \<open>magic_wii\<close> at offset \<open>0x18\<close>,
  \<open>magic_gcn\<close> at offset \<open>0x1C\<close>; and a disc header that carries the GameCube magic.
\<close>

definition w_disc_layout :: disc_layout where
  "w_disc_layout = \<lparr>magic_wii = (\<lambda>s. be32_at s 24), magic_gcn = (\<lambda>s. be32_at s 28)\<rparr>"

definition w_gcn_header :: sector where
  "w_gcn_header = replicate 28 0 @ [0xC2, 0x33, 0x9F, 0x3D] @ replicate 480 0"

definition w_env :: copy_env where
  "w_env = \<lparr>malloc_buf = Some (replicate 2048 zero_sector), errno0 = None,
     time_now = 1546300800\<rparr>"

text \<open>
  A standalone image of two LBAs, of a given type and encryption, whose sectors are not
  blank; the same with a longer \<open>lba_len\<close>; and the same bank after a "Flush" of the
  device: LBA 0 is zeroed on disk and the disc header survives in the entry.
\<close>

definition w_src_entry :: "RvtH_BankType \<Rightarrow> RvtH_CryptoType \<Rightarrow> RvtH_BankEntry" where
  "w_src_entry t c =
     zero_BankEntry\<lparr>reader := Some \<lparr>rd_lba_start = 0, rd_lba_len = 2\<rparr>, lba_len := 2,
       timestamp := - 1, type := t, discHeader := fill_sector 1, crypto_type := c,
       ticket := \<lparr>sig_type = RVTH_SigType_Retail, sig_status = RVTH_SigStatus_OK\<rparr>,
       tmd := \<lparr>sig_type = RVTH_SigType_Retail, sig_status = RVTH_SigStatus_OK\<rparr>\<rparr>"

definition w_src_file :: RefFile where
  "w_src_file = blank_file\<lparr>content :=
       (\<lambda>i. if i = 0 then fill_sector 1 else if i = 1 then fill_sector 2 else zero_sector),
     flen := 2\<rparr>"

definition w_src :: "RvtH_BankType \<Rightarrow> RvtH_CryptoType \<Rightarrow> RvtH" where
  "w_src t c = \<lparr>f_img = w_src_file, is_hdd = False, bank_count = 1, entries = [w_src_entry t c]\<rparr>"

definition w_src_big :: RvtH where
  "w_src_big = \<lparr>f_img = w_src_file, is_hdd = False, bank_count = 1,
     entries = [(w_src_entry RVTH_BankType_Wii_DL RVTH_CryptoType_Debug)\<lparr>lba_len := 20000000\<rparr>]\<rparr>"

definition w_src_flushed :: RvtH where
  "w_src_flushed =
     \<lparr>f_img = blank_file\<lparr>content := (\<lambda>i. if i = 1 then fill_sector 2 else zero_sector),
                          flen := 2\<rparr>,
      is_hdd = False, bank_count = 1,
      entries = [(w_src_entry RVTH_BankType_GCN RVTH_CryptoType_Unknown)
                   \<lparr>discHeader := w_gcn_header\<rparr>]\<rparr>"

text \<open>A new standalone destination of two LBAs, as an extract creates it.\<close>

definition w_gcm_dest :: RvtH where
  "w_gcm_dest =
     \<lparr>f_img = blank_file, is_hdd = False, bank_count = 1,
      entries = [zero_BankEntry\<lparr>reader := Some \<lparr>rd_lba_start = 0, rd_lba_len = 2\<rparr>,
                   lba_len := 2, timestamp := - 1\<rparr>]\<rparr>"

text \<open>
  Stand-ins for the operations that the sources do not hold: \<open>rvth_make_writable\<close>
  succeeds, \<open>rvth_write_BankEntry\<close> leaves the object as it is, \<open>rvth_recrypt_partitions\<close>
  records the new encryption in the entry, \<open>rvth_recrypt_id\<close> writes one sector.
\<close>

definition w_ops :: rvth_ops where
  "w_ops =
     \<lparr>NHCD_BANK_SIZE_LBA = 9193984,
      NHCD_EXTBANKTABLE_BANK_1_SIZE_LBA = 9193952,
      rvth_make_writable = (\<lambda>r. (Success, r)),
      rvth_write_BankEntry = (\<lambda>r b. r),
      rvth_recrypt_partitions =
        (\<lambda>r b k cb. (Success, r\<lparr>entries := (entries r)[b := (entries r ! b)\<lparr>crypto_type := k\<rparr>]\<rparr>)),
      rvth_recrypt_id =
        (\<lambda>r b. (Success, r\<lparr>f_img := (f_img r)\<lparr>iolog := iolog (f_img r) @ [IoWrite 1]\<rparr>\<rparr>)),
      reader_alloc_error = None\<rparr>"

text \<open>
  An HDD image of 8 banks: banks 0, 1 and 3 hold GameCube images, the others are empty
  and have no Reader yet. And an HDD image with an extended table of 9 empty banks.
\<close>

definition w_bank_used :: "nat \<Rightarrow> RvtH_BankEntry" where
  "w_bank_used i =
     zero_BankEntry\<lparr>lba_start := of_nat (3145737 + i * 9193984), lba_len := 2854912,
       timestamp := 1546300800, type := RVTH_BankType_GCN\<rparr>"

definition w_bank_empty :: "nat \<Rightarrow> RvtH_BankEntry" where
  "w_bank_empty i =
     zero_BankEntry\<lparr>lba_start := of_nat (3145737 + i * 9193984), lba_len := 9193984,
       timestamp := - 1\<rparr>"

definition w_hdd :: RvtH where
  "w_hdd =
     \<lparr>f_img = blank_file\<lparr>flen := 76697609\<rparr>, is_hdd = True, bank_count = 8,
      entries = [w_bank_used 0, w_bank_used 1, w_bank_empty 2, w_bank_used 3,
                 w_bank_empty 4, w_bank_empty 5, w_bank_empty 6, w_bank_empty 7]\<rparr>"

definition w_hdd_ext :: RvtH where
  "w_hdd_ext =
     \<lparr>f_img = blank_file\<lparr>flen := 76697609\<rparr>, is_hdd = True, bank_count = 9,
      entries = map w_bank_empty [0, 1, 2, 3, 4, 5, 6, 7, 8]\<rparr>"

text \<open>
  The import of \<open>w_src t c\<close> into bank 4 of \<open>w_hdd\<close>: the Reader set up for the bank, the
  entry, and the two objects after the copy.
\<close>

definition w_imp_reader :: Reader where
  "w_imp_reader = \<lparr>rd_lba_start = 39921673, rd_lba_len = 9193984\<rparr>"

definition w_imp_entry :: "RvtH_BankType \<Rightarrow> RvtH_CryptoType \<Rightarrow> RvtH_BankEntry" where
  "w_imp_entry t c =
     copy_bank_info_hdd (time_now w_env) (w_src_entry t c)
       ((w_bank_empty 4)\<lparr>reader := Some w_imp_reader\<rparr>)"

definition w_imp_dest :: "RvtH_BankType \<Rightarrow> RvtH_CryptoType \<Rightarrow> RvtH" where
  "w_imp_dest t c =
     w_hdd\<lparr>f_img := ref_flush (snd (reader_plain_write w_imp_reader (f_img w_hdd)
                                      [fill_sector 1, fill_sector 2] 0 2)),
           entries := (entries w_hdd)[4 := w_imp_entry t c]\<rparr>"

definition w_imp_src :: "RvtH_BankType \<Rightarrow> RvtH_CryptoType \<Rightarrow> RvtH" where
  "w_imp_src t c =
     (w_src t c)\<lparr>f_img := snd (snd (reader_plain_read \<lparr>rd_lba_start = 0, rd_lba_len = 2\<rparr>
                                       w_src_file 0 2))\<rparr>"

text \<open>
  An HDD image whose bank table announces 8 banks, the first seven empty and the last a
  dual-layer Wii image.
\<close>

definition w_nhcd_entry_dl :: sector where
  "w_nhcd_entry_dl = [0x4E, 0x4E, 0x32, 0x4C] @ replicate 508 0"

definition w_hdd_dl_last :: RefFile where
  "w_hdd_dl_last =
     blank_file\<lparr>content := (\<lambda>i. if i = 3145728 then w_nhcd_header 8
                                else if i = 3145736 then w_nhcd_entry_dl else zero_sector),
                flen := 76697609\<rparr>"

text \<open>
  A GameCube bank of 2048 LBAs after a "Flush": every LBA of the stream reads as zero, the
  disc header survives in the entry. And a new standalone destination of 2048 LBAs.
\<close>

definition w_reader_2048 :: Reader where
  "w_reader_2048 = \<lparr>rd_lba_start = 0, rd_lba_len = 2048\<rparr>"

definition w_entry_2048 :: RvtH_BankEntry where
  "w_entry_2048 = zero_BankEntry\<lparr>reader := Some w_reader_2048, lba_len := 2048,
     timestamp := - 1, type := RVTH_BankType_GCN, discHeader := w_gcn_header\<rparr>"

definition w_src_2048 :: RvtH where
  "w_src_2048 = \<lparr>f_img = blank_file\<lparr>flen := 2048\<rparr>, is_hdd = False, bank_count = 1,
     entries = [w_entry_2048]\<rparr>"

definition w_dest_entry_2048 :: RvtH_BankEntry where
  "w_dest_entry_2048 = zero_BankEntry\<lparr>reader := Some w_reader_2048, lba_len := 2048,
     timestamp := - 1\<rparr>"

definition w_dest_2048 :: RvtH where
  "w_dest_2048 = \<lparr>f_img = blank_file, is_hdd = False, bank_count = 1,
     entries = [w_dest_entry_2048]\<rparr>"

section \<open>Arithmetic of 32-bit LBAs\<close>

lemma unat_add32: "unat ((a::u32) + b) = (unat a + unat b) mod 4294967296"
  by (simp add: unat_word_ariths)

lemma unat_mult32: "unat ((a::u32) * b) = (unat a * unat b) mod 4294967296"
  by (simp add: unat_word_ariths)

lemma unat_lt32: "unat (a::u32) < 4294967296"
  using unsigned_less[of a, where 'a=nat] by simp

lemma unat_add32_nowrap:
  "unat (a::u32) + unat b < 4294967296 \<Longrightarrow> unat (a + b) = unat a + unat b"
  using unat_add_lem[of a b] by simp

lemma mod_shift_nat: "(k::nat) < n \<Longrightarrow> (k + n) mod n = k"
  by simp

lemma unat_sub32: "unat ((a::u32) - b) = (unat a + 4294967296 - unat b) mod 4294967296"
proof -
  have la: "unat a < 4294967296" and lb: "unat b < 4294967296"
    by (rule unat_lt32)+
  have sz: "(2::nat) ^ size a = 4294967296" by (simp add: word_size)
  show ?thesis
  proof (cases "unat b \<le> unat a")
    case True
    then have e: "unat a + 4294967296 - unat b = (unat a - unat b) + 4294967296" by arith
    have l: "unat a - unat b < 4294967296" using la by arith
    have "(unat a + 4294967296 - unat b) mod 4294967296 = unat a - unat b"
      unfolding e by (rule mod_shift_nat[OF l])
    then show ?thesis using True unat_sub_if_size[of a b] by simp
  next
    case False
    then have "unat a + 4294967296 - unat b < 4294967296" using lb by arith
    then have "(unat a + 4294967296 - unat b) mod 4294967296 = unat a + 4294967296 - unat b"
      by simp
    then show ?thesis using False unat_sub_if_size[of a b] sz by simp
  qed
qed

section \<open>The destination length of an unencrypted-to-encrypted extract\<close>

lemma b2l_8000: "BYTES_TO_LBA 0x8000 = 64"
  by (simp add: BYTES_TO_LBA_def)

lemma b2l_20000: "BYTES_TO_LBA 0x20000 = 256"
  by (simp add: BYTES_TO_LBA_def)

lemma unenc_gcm_lba_len_unat:
  "unat (unenc_gcm_lba_len p) = gcm_nat (unat (pte_lba_len p)) (unat (pte_lba_start p))"
proof -
  define t where "t = pte_lba_len p - 64"
  have ut: "unat t = (unat (pte_lba_len p) + 4294967296 - 64) mod 4294967296"
    unfolding t_def by (simp only: unat_sub32) simp
  have uq: "unat (t div 3968) = unat t div 3968"
    by (simp add: unat_div)
  have um: "unat (t mod 3968) = unat t mod 3968"
    by (simp add: unat_mod)
  have ug0: "unat (t div 3968 * 4096) = (unat t div 3968 * 4096) mod 4294967296"
    by (simp only: unat_mult32 uq) simp
  have nz: "(t mod 3968 \<noteq> 0) = (unat t mod 3968 \<noteq> 0)"
    using um by (metis unat_eq_0)
  have ug1: "unat (t div 3968 * 4096 + 4096) = ((unat t div 3968 * 4096) mod 4294967296 + 4096) mod 4294967296"
    by (simp only: unat_add32 ug0) simp
  have utail: "unat (256 + pte_lba_start p) = (256 + unat (pte_lba_start p)) mod 4294967296"
    by (simp only: unat_add32) simp
  have e: "unenc_gcm_lba_len p = (if t mod 3968 \<noteq> 0 then t div 3968 * 4096 + 4096 else t div 3968 * 4096) + (256 + pte_lba_start p)"
    by (simp add: unenc_gcm_lba_len_def b2l_8000 b2l_20000 t_def Let_def)
  show ?thesis
  proof (cases "unat t mod 3968 \<noteq> 0")
    case True
    then have "unenc_gcm_lba_len p = (t div 3968 * 4096 + 4096) + (256 + pte_lba_start p)"
      using e nz by simp
    then have "unat (unenc_gcm_lba_len p) = (unat (t div 3968 * 4096 + 4096) + unat (256 + pte_lba_start p)) mod 4294967296"
      by (simp only: unat_add32)
    then show ?thesis
      using True unfolding ug1 utail gcm_nat_def Let_def ut[symmetric] by simp
  next
    case False
    then have "unenc_gcm_lba_len p = (t div 3968 * 4096) + (256 + pte_lba_start p)"
      using e nz by simp
    then have "unat (unenc_gcm_lba_len p) = (unat (t div 3968 * 4096) + unat (256 + pte_lba_start p)) mod 4294967296"
      by (simp only: unat_add32)
    then show ?thesis
      using False unfolding ug0 utail gcm_nat_def Let_def ut[symmetric] by simp
  qed
qed

lemma gcm_nat_exact:
  assumes "64 \<le> L" "L < 4294967296" "exact_nat L S < 4294967296"
  shows "gcm_nat L S = exact_nat L S"
proof -
  have e0: "L + 4294967296 - 64 = (L - 64) + 4294967296" using assms(1) by arith
  have l0: "L - 64 < 4294967296" using assms(2) by arith
  have t: "(L + 4294967296 - 64) mod 4294967296 = L - 64"
    unfolding e0 by (rule mod_shift_nat[OF l0])
  show ?thesis
  proof (cases "(L - 64) mod 3968 \<noteq> 0")
    case True
    then have e: "exact_nat L S = (L - 64) div 3968 * 4096 + 4096 + (256 + S)"
      by (simp add: exact_nat_def)
    have b1: "(L - 64) div 3968 * 4096 < 4294967296" using e assms(3) by arith
    have b2: "(L - 64) div 3968 * 4096 + 4096 < 4294967296" using e assms(3) by arith
    have b3: "256 + S < 4294967296" using e assms(3) by arith
    have b4: "(L - 64) div 3968 * 4096 + 4096 + (256 + S) < 4294967296" using e assms(3) by arith
    have c: "((L - 64) mod 3968 \<noteq> 0) = True" using True by simp
    have "gcm_nat L S = (L - 64) div 3968 * 4096 + 4096 + (256 + S)"
      unfolding gcm_nat_def Let_def t c if_True
        mod_less[OF b1] mod_less[OF b2] mod_less[OF b3] mod_less[OF b4]
      by (rule refl)
    then show ?thesis using e by simp
  next
    case False
    then have e: "exact_nat L S = (L - 64) div 3968 * 4096 + (256 + S)"
      by (simp add: exact_nat_def)
    have b1: "(L - 64) div 3968 * 4096 < 4294967296" using e assms(3) by arith
    have b3: "256 + S < 4294967296" using e assms(3) by arith
    have b4: "(L - 64) div 3968 * 4096 + (256 + S) < 4294967296" using e assms(3) by arith
    have c: "((L - 64) mod 3968 \<noteq> 0) = False" using False by simp
    have "gcm_nat L S = (L - 64) div 3968 * 4096 + (256 + S)"
      unfolding gcm_nat_def Let_def t c if_False
        mod_less[OF b1] mod_less[OF b3] mod_less[OF b4]
      by (rule refl)
    then show ?thesis using e by simp
  qed
qed

lemma spec_nat:
  assumes "64 \<le> L"
  shows "spec_unenc_gcm_lba_len (int L) (int S) = int (exact_nat L S)"
proof -
  have a: "int L - 64 = int (L - 64)" using assms by arith
  have d: "int (L - 64) div 3968 = int ((L - 64) div 3968)"
    using zdiv_int[of "L - 64" 3968] by simp
  have m: "int (L - 64) mod 3968 = int ((L - 64) mod 3968)"
    using zmod_int[of "L - 64" 3968] by simp
  have c0: "spec_unenc_gcm_lba_len (int L) (int S) = ceil_div (int L - 64) 3968 * 4096 + 256 + int S"
    by (simp add: spec_unenc_gcm_lba_len_def Let_def)
  have c: "spec_unenc_gcm_lba_len (int L) (int S) = ceil_div (int (L - 64)) 3968 * 4096 + 256 + int S"
    using c0 unfolding a .
  show ?thesis
    unfolding c ceil_div_def d m exact_nat_def by simp
qed

lemma gcm_nat_0_0: "gcm_nat 0 0 = 138551552"
  by (simp add: gcm_nat_def Let_def)

lemma uint_unat32: "uint (w::u32) = int (unat w)"
  by simp

section \<open>The plain Reader without wrap-around\<close>

lemma reader_plain_write_out_of_range:
  assumes "unat (rd_lba_len r) < unat rel + unat n"
    and "unat (rd_lba_start r) + unat rel + unat n < 4294967296"
    and "unat (rd_lba_start r) + unat (rd_lba_len r) < 4294967296"
  shows "reader_plain_write r f ptr rel n = (0, f)"
proof -
  have a: "unat (rel + rd_lba_start r) = unat rel + unat (rd_lba_start r)"
    using assms(2) by (intro unat_add32_nowrap) arith
  have b: "unat (rel + rd_lba_start r + n) = unat rel + unat (rd_lba_start r) + unat n"
    using assms(2) a unat_add32_nowrap[of "rel + rd_lba_start r" n] by arith
  have c: "unat (rd_lba_start r + rd_lba_len r) = unat (rd_lba_start r) + unat (rd_lba_len r)"
    using assms(3) by (rule unat_add32_nowrap)
  have "rd_lba_start r + rd_lba_len r < rel + rd_lba_start r + n"
    unfolding word_less_nat_alt b c using assms(1) by arith
  then show ?thesis by (simp add: reader_plain_write_def Let_def)
qed

lemma reader_plain_read_out_of_range:
  assumes "unat (rd_lba_len r) < unat rel + unat n"
    and "unat (rd_lba_start r) + unat rel + unat n < 4294967296"
    and "unat (rd_lba_start r) + unat (rd_lba_len r) < 4294967296"
  shows "reader_plain_read r f rel n = (0, [], f)"
proof -
  have a: "unat (rel + rd_lba_start r) = unat rel + unat (rd_lba_start r)"
    using assms(2) by (intro unat_add32_nowrap) arith
  have b: "unat (rel + rd_lba_start r + n) = unat rel + unat (rd_lba_start r) + unat n"
    using assms(2) a unat_add32_nowrap[of "rel + rd_lba_start r" n] by arith
  have c: "unat (rd_lba_start r + rd_lba_len r) = unat (rd_lba_start r) + unat (rd_lba_len r)"
    using assms(3) by (rule unat_add32_nowrap)
  have "rd_lba_start r + rd_lba_len r < rel + rd_lba_start r + n"
    unfolding word_less_nat_alt b c using assms(1) by arith
  then show ?thesis by (simp add: reader_plain_read_def Let_def)
qed

section \<open>Import checks\<close>

lemma check_import_dl_order:
  assumes "type entry_src = RVTH_BankType_Wii_DL"
    and "bank_dest < bank_count dest"
    and "length (entries dest) = bank_count dest"
  shows "(8 < bank_count dest \<and> bank_dest = 0 \<longrightarrow>
            check_import ops dest bank_dest entry_src entry_dest =
              Some (Some (Rvth RVTH_ERROR_IMPORT_DL_EXT_NO_BANK1, EINVAL))) \<and>
         (bank_dest = bank_count dest - 1 \<longrightarrow>
            check_import ops dest bank_dest entry_src entry_dest =
              Some (Some (Rvth RVTH_ERROR_IMPORT_DL_LAST_BANK, EINVAL))) \<and>
         (bank_dest \<noteq> bank_count dest - 1 \<and> (bank_count dest \<le> 8 \<or> bank_dest \<noteq> 0) \<and>
          not_empty_or_deleted entry_dest \<longrightarrow>
            check_import ops dest bank_dest entry_src entry_dest =
              Some (Some (Rvth RVTH_ERROR_BANK_NOT_EMPTY_OR_DELETED, EEXIST))) \<and>
         (bank_dest \<noteq> bank_count dest - 1 \<and> (bank_count dest \<le> 8 \<or> bank_dest \<noteq> 0) \<and>
          \<not> not_empty_or_deleted entry_dest \<and>
          not_empty_or_deleted (entries dest ! (bank_dest + 1)) \<longrightarrow>
            check_import ops dest bank_dest entry_src entry_dest =
              Some (Some (Rvth RVTH_ERROR_BANK2DL_NOT_EMPTY_OR_DELETED, EEXIST))) \<and>
         (bank_dest \<noteq> bank_count dest - 1 \<and> (bank_count dest \<le> 8 \<or> bank_dest \<noteq> 0) \<and>
          \<not> not_empty_or_deleted entry_dest \<and>
          \<not> not_empty_or_deleted (entries dest ! (bank_dest + 1)) \<and>
          NHCD_BANK_SIZE_LBA ops * 2 < unat (lba_len entry_src) \<longrightarrow>
            check_import ops dest bank_dest entry_src entry_dest =
              Some (Some (Rvth RVTH_ERROR_IMAGE_TOO_BIG, ENOSPC)))"
proof -
  have nxt: "bank_dest \<noteq> bank_count dest - 1 \<Longrightarrow>
      entry_at dest (bank_dest + 1) = Some (entries dest ! (bank_dest + 1))"
    using assms(2,3) by (auto simp: entry_at_def)
  show ?thesis
    using assms(1,2) nxt
    by (auto simp: check_import_def check_import_size_def)
qed

lemma rvth_copy_to_hdd_body_check_fails:
  assumes "bank_src < bank_count src"
    and "bank_dest < bank_count dest"
    and "is_hdd dest"
    and "entry_at src bank_src = Some entry_src"
    and "type entry_src = RVTH_BankType_Wii_DL"
    and "entry_at dest bank_dest = Some entry_dest"
    and "check_import ops dest bank_dest entry_src entry_dest = Some (Some (ret, err))"
  shows "rvth_copy_to_hdd_body ops env dest bank_dest src bank_src callback =
           Some (ret, Some err, dest, src)"
  using assms by (simp add: rvth_copy_to_hdd_body_def)

section \<open>Closing a partly built object\<close>

lemma rvth_close_loop_null:
  "rvth_close_loop None n i = (if i < n then None else Some ())"
  by (subst rvth_close_loop.simps) simp

lemma rvth_close_loop_entries:
  "rvth_close_loop (Some ents) n i = Some ()"
proof (induction "n - i" arbitrary: i rule: less_induct)
  case less
  show ?case
  proof (cases "i < n")
    case True
    then have "n - (i + 1) < n - i" by arith
    then have "rvth_close_loop (Some ents) n (i + 1) = Some ()" by (rule less.hyps)
    then show ?thesis using True by (subst rvth_close_loop.simps) simp
  next
    case False
    then show ?thesis by (subst rvth_close_loop.simps) simp
  qed
qed

lemma open_hdd_fail_null:
  "open_hdd_fail None ret err = Some (Inl (ret, err))"
  by (simp add: open_hdd_fail_def rvth_close_def)

lemma open_hdd_fail_no_entries:
  "open_hdd_fail (Some (n, None)) ret err = (if 0 < n then None else Some (Inl (ret, err)))"
  by (simp add: open_hdd_fail_def rvth_close_def rvth_close_loop_null)

lemma open_hdd_fail_entries:
  "open_hdd_fail (Some (n, Some ents)) ret err = Some (Inl (ret, err))"
  by (simp add: open_hdd_fail_def rvth_close_def rvth_close_loop_entries)

lemma rvth_open_hdd_bad_magic:
  assumes "ref_seeko f (LBA_TO_BYTES (NHCD_BANKTABLE_ADDRESS_LBA lay)) = (True, f1)"
    and "ref_read f1 1 = ([hdr], f2)"
    and "header_magic lay hdr \<noteq> NHCD_BANKTABLE_MAGIC"
  shows "rvth_open_hdd lay env f = Some (Inl (Rvth RVTH_ERROR_NHCD_TABLE_MAGIC, EIO))"
  using assms by (simp add: rvth_open_hdd_def open_hdd_fail_null)

section \<open>Evaluation of the examples\<close>

lemma foldl_be32_zero:
  "foldl (\<lambda>a b. a * 256 + unat (b::u8)) 0 (replicate n 0) = 0"
  by (induction n) simp_all

lemma be32_at_zero_sector: "be32_at zero_sector off = 0"
  by (simp add: be32_at_def zero_sector_def foldl_be32_zero)

lemma lba_buf_max_2: "unat ((2::u32) AND NOT (LBA_COUNT_BUF - 1)) = 0"
  by (simp add: LBA_COUNT_BUF_def)

lemma fill_sector_not_empty: "rvth_is_block_empty [fill_sector 1] = False"
  by (simp add: rvth_is_block_empty_def fill_sector_def list_all_iff)

lemma fill_sector_neq_zero: "fill_sector 1 \<noteq> zero_sector"
  by (simp add: fill_sector_def zero_sector_def)

lemma w_gcn_header_neq_zero: "w_gcn_header \<noteq> zero_sector"
proof
  assume "w_gcn_header = zero_sector"
  then have "w_gcn_header ! 28 = zero_sector ! 28" by simp
  then show False by (simp add: w_gcn_header_def zero_sector_def nth_append)
qed

section \<open>Cancellation at the first boundary\<close>

lemma copy_run_gcm_cancel_first:
  assumes c: "cancelled callback state 0"
  shows "copy_run_gcm lay callback state es ed st0 = Some (Some ECANCELED, st0)"
proof (cases "0 < unat (lba_len ed AND NOT (LBA_COUNT_BUF - 1))")
  case True
  have "copy_chunks_gcm lay callback state (reader es) (reader ed) (discHeader es)
          (unat (lba_len ed AND NOT (LBA_COUNT_BUF - 1))) 0 st0 = Some (Inl st0)"
    by (subst copy_chunks_gcm.simps) (simp add: True c)
  then show ?thesis by (simp add: copy_run_gcm_def)
next
  case False
  have ch: "copy_chunks_gcm lay callback state (reader es) (reader ed) (discHeader es)
          (unat (lba_len ed AND NOT (LBA_COUNT_BUF - 1))) 0 st0 = Some (Inr (0, st0))"
    by (subst copy_chunks_gcm.simps) (simp add: False)
  show ?thesis
  proof (cases "0 < lba_len es")
    case True
    then have "copy_tail_gcm callback state (reader es) (reader ed) (lba_len es) 0 st0
                 = Some (Inl st0)"
      using c by (simp add: copy_tail_gcm_def)
    then show ?thesis using ch by (simp add: copy_run_gcm_def)
  next
    case False
    then have z: "lba_len es = 0" by (simp add: word_gt_0)
    have t: "copy_tail_gcm callback state (reader es) (reader ed) (lba_len es) 0 st0
               = Some (Inr st0)"
      unfolding z by (simp add: copy_tail_gcm_def)
    have f: "copy_finish_gcm callback state (reader ed) (lba_len es) st0 = Some (Inl st0)"
      unfolding z using c by (simp add: copy_finish_gcm_def)
    show ?thesis using ch t f by (simp add: copy_run_gcm_def)
  qed
qed

section \<open>The import of the example image\<close>

lemma w_import_copy:
  assumes "check_bank_type t = None" and "t \<noteq> RVTH_BankType_Wii_DL"
  shows "rvth_copy_to_hdd_body w_ops w_env w_hdd 4 (w_src t c) 0 None
           = Some (Success, None, w_imp_dest t c, w_imp_src t c)"
  using assms
  by (simp add: rvth_copy_to_hdd_body_def w_ops_def w_env_def w_hdd_def w_src_def
      w_src_entry_def w_bank_empty_def w_bank_used_def zero_BankEntry_def entry_at_def
      check_import_def check_import_size_def not_empty_or_deleted_def setup_dest_reader_def
      reader_plain_open_def blank_file_def copy_run_hdd_def copy_bank_info_hdd_def
      copy_bank_info_def lba_buf_max_2 copy_chunks_hdd.simps copy_tail_hdd_def rd_read_def
      rd_write_def rd_flush_def reader_plain_read_def reader_plain_write_def
      reader_plain_flush_def ref_seeko_def ref_read_def ref_write_def ref_flush_def
      buf_store_def LBA_TO_BYTES_def cancelled_def hdd_result_def w_imp_dest_def
      w_imp_src_def w_imp_entry_def w_imp_reader_def w_src_file_def file_sector_def Let_def)

section \<open>Extract: what the copy leaves at the first LBA of the destination\<close>

lemma and_not_mask_push_drop:
  "(w::u32) AND NOT (mask n) = push_bit n (drop_bit n w)"
  by (rule bit_eqI) (auto simp: bit_simps)

lemma unat_and_not_2047: "unat ((w::u32) AND NOT 2047) = unat w div 2048 * 2048"
proof -
  have m: "(2047::u32) = mask 11" by (simp add: mask_eq_exp_minus_1)
  have "unat (w AND NOT 2047) = unat (push_bit 11 (drop_bit 11 w))"
    unfolding m and_not_mask_push_drop ..
  also have "push_bit 11 (drop_bit 11 w) = w div 2048 * 2048"
    by (simp add: push_bit_eq_mult drop_bit_eq_div)
  also have "unat (w div 2048 * 2048) = (unat (w div 2048) * unat (2048::u32)) mod 4294967296"
    by (rule unat_mult32)
  also have "\<dots> = (unat w div 2048 * 2048) mod 4294967296"
    by (simp add: unat_div)
  also have "\<dots> = unat w div 2048 * 2048"
  proof -
    have "unat w div 2048 * 2048 \<le> unat w" by simp
    then have "unat w div 2048 * 2048 < 4294967296" using unat_lt32[of w] by arith
    then show ?thesis by simp
  qed
  finally show ?thesis .
qed

lemma lba_buf_max_eq:
  "unat ((w::u32) AND NOT (LBA_COUNT_BUF - 1)) = unat w div 2048 * 2048"
  using unat_and_not_2047[of w] by (simp add: LBA_COUNT_BUF_def)

lemma nat_lba_to_bytes: "nat (LBA_TO_BYTES x div 512) = unat x"
  by (simp add: LBA_TO_BYTES_def)

lemma lba_to_bytes_nonneg: "\<not> LBA_TO_BYTES x < 0"
  by (simp add: LBA_TO_BYTES_def)

lemma file_sector_ref_write_other:
  assumes "\<not> (nat (fpos f div 512) \<le> a \<and> a < nat (fpos f div 512) + length data)"
  shows "file_sector (snd (ref_write f data)) a = file_sector f a"
  using assms by (auto simp: ref_write_def file_sector_def Let_def)

lemma file_sector_ref_write_first:
  assumes "data \<noteq> []"
  shows "file_sector (snd (ref_write f data)) (nat (fpos f div 512)) = hd data"
  using assms by (cases data) (auto simp: ref_write_def file_sector_def Let_def)

lemma reader_plain_write_other:
  assumes nz: "rel \<noteq> 0" and le: "unat rel + unat n \<le> 4294967296"
  shows "file_sector (snd (reader_plain_write r f ptr rel n)) (unat (rd_lba_start r))
           = file_sector f (unat (rd_lba_start r))"
proof -
  define a where "a = unat (rd_lba_start r)"
  define p where "p = unat (rel + rd_lba_start r)"
  have rpos: "0 < unat rel" using nz by (simp add: unat_gt_0)
  have alt: "a < 4294967296" unfolding a_def by (rule unat_lt32)
  have pe: "p = (unat rel + a) mod 4294967296"
    unfolding p_def a_def by (rule unat_add32)
  have out: "\<not> (p \<le> a \<and> a < p + length (take (unat n) ptr))"
  proof (cases "unat rel + a < 4294967296")
    case True
    then have "p = unat rel + a" unfolding pe by simp
    then show ?thesis using rpos by arith
  next
    case False
    then have ge: "4294967296 \<le> unat rel + a" by arith
    have "unat rel + a < 4294967296 + 4294967296" using unat_lt32[of rel] alt by arith
    then have "(unat rel + a - 4294967296) < 4294967296" by arith
    moreover have "unat rel + a = (unat rel + a - 4294967296) + 4294967296" using ge by arith
    ultimately have "p = unat rel + a - 4294967296"
      unfolding pe by (metis mod_shift_nat)
    moreover have "length (take (unat n) ptr) \<le> unat n" by simp
    ultimately show ?thesis using le ge by arith
  qed
  show ?thesis
  proof (cases "rd_lba_start r + rd_lba_len r < rel + rd_lba_start r + n")
    case True
    then show ?thesis by (simp add: reader_plain_write_def Let_def)
  next
    case False
    show ?thesis
    proof (cases "seek_fails f")
      case True
      then show ?thesis
        using False by (simp add: reader_plain_write_def Let_def ref_seeko_def file_sector_def)
    next
      case sf: False
      let ?f1 = "f\<lparr>fpos := LBA_TO_BYTES (rel + rd_lba_start r),
                    iolog := iolog f @ [IoSeek (LBA_TO_BYTES (rel + rd_lba_start r))]\<rparr>"
      have w: "reader_plain_write r f ptr rel n
                 = (of_nat (fst (ref_write ?f1 (take (unat n) ptr))),
                    snd (ref_write ?f1 (take (unat n) ptr)))"
        using False sf
        by (simp add: reader_plain_write_def Let_def ref_seeko_def lba_to_bytes_nonneg
            split_beta)
      have pp: "nat (fpos ?f1 div 512) = p"
        unfolding p_def by (simp add: nat_lba_to_bytes)
      have "file_sector (snd (ref_write ?f1 (take (unat n) ptr))) a = file_sector ?f1 a"
        by (rule file_sector_ref_write_other) (use out pp in simp)
      moreover have "file_sector ?f1 a = file_sector f a" by (simp add: file_sector_def)
      ultimately show ?thesis unfolding w a_def by simp
    qed
  qed
qed

lemma reader_plain_write_first:
  assumes sf: "\<not> seek_fails f"
    and n: "0 < unat n" "unat n \<le> unat (rd_lba_len r)"
    and nw: "unat (rd_lba_start r) + unat (rd_lba_len r) < 4294967296"
    and pt: "ptr \<noteq> []"
  shows "file_sector (snd (reader_plain_write r f ptr 0 n)) (unat (rd_lba_start r)) = hd ptr"
proof -
  have c: "unat (rd_lba_start r + rd_lba_len r) = unat (rd_lba_start r) + unat (rd_lba_len r)"
    using nw by (rule unat_add32_nowrap)
  have b: "unat (rd_lba_start r + n) = unat (rd_lba_start r) + unat n"
    using nw n(2) by (intro unat_add32_nowrap) arith
  have chk: "\<not> rd_lba_start r + rd_lba_len r < 0 + rd_lba_start r + n"
    unfolding word_less_nat_alt using b c n(2) by simp
  let ?f1 = "f\<lparr>fpos := LBA_TO_BYTES (rd_lba_start r),
                iolog := iolog f @ [IoSeek (LBA_TO_BYTES (rd_lba_start r))]\<rparr>"
  have w: "reader_plain_write r f ptr 0 n
             = (of_nat (fst (ref_write ?f1 (take (unat n) ptr))),
                snd (ref_write ?f1 (take (unat n) ptr)))"
    using chk sf
    by (simp add: reader_plain_write_def Let_def ref_seeko_def lba_to_bytes_nonneg split_beta)
  have ne: "take (unat n) ptr \<noteq> []" using n(1) pt by simp
  have pp: "nat (fpos ?f1 div 512) = unat (rd_lba_start r)"
    by (simp add: nat_lba_to_bytes)
  have "file_sector (snd (ref_write ?f1 (take (unat n) ptr))) (nat (fpos ?f1 div 512))
          = hd (take (unat n) ptr)"
    by (rule file_sector_ref_write_first[OF ne])
  moreover have "hd (take (unat n) ptr) = hd ptr" using n(1) pt by (cases ptr) (simp_all add: take_Cons')
  ultimately show ?thesis unfolding w pp by simp
qed


lemma unat_of_nat32: "k < 4294967296 \<Longrightarrow> unat (of_nat k :: u32) = k"
  by (simp add: unat_of_nat)

lemma unat_add_of_nat32:
  assumes "unat (lc::u32) + k < 4294967296"
  shows "unat (lc + of_nat k) = unat lc + k"
proof -
  have "k < 4294967296" using assms by arith
  then have e: "unat (of_nat k :: u32) = k" by (rule unat_of_nat32)
  have "unat lc + unat (of_nat k :: u32) < 4294967296" unfolding e by (rule assms)
  then have "unat (lc + of_nat k) = unat lc + unat (of_nat k :: u32)"
    by (rule unat_add32_nowrap)
  then show ?thesis unfolding e .
qed

lemma unat_pos_neq_0: "0 < unat (x::u32) \<Longrightarrow> x \<noteq> 0"
  by auto

lemma sprs_4k_bound:
  assumes "4096 dvd (sprs::nat)" and "sprs < BUF_SIZE"
  shows "sprs div 512 + 8 \<le> 2048"
proof -
  from assms(1) obtain k where k: "sprs = 4096 * k" ..
  then have "sprs = 512 * (8 * k)" by simp
  then have d: "sprs div 512 = 8 * k" by simp
  have "k < 256" using k assms(2) by (simp add: BUF_SIZE_def)
  then show ?thesis unfolding d by arith
qed

lemma sprs_4k_pos:
  assumes "4096 dvd (sprs::nat)" and "0 < sprs"
  shows "0 < sprs div 512"
proof -
  from assms(1) obtain k where k: "sprs = 4096 * k" ..
  then have "sprs = 512 * (8 * k)" by simp
  then have d: "sprs div 512 = 8 * k" by simp
  have "0 < k" using k assms(2) by simp
  then show ?thesis unfolding d by simp
qed

lemma rd_write_other:
  assumes "rd_write (Some r) f ptr rel n = Some f'"
    and "rel \<noteq> 0" and "unat rel + unat n \<le> 4294967296"
  shows "file_sector f' (unat (rd_lba_start r)) = file_sector f (unat (rd_lba_start r))"
proof -
  have "f' = snd (reader_plain_write r f ptr rel n)"
    using assms(1) by (simp add: rd_write_def)
  then show ?thesis using reader_plain_write_other[OF assms(2,3)] by simp
qed

lemma sparse_scan_4k_other:
  assumes "sparse_scan_4k (Some r) buf lc sprs st = Some st'"
    and "4096 dvd sprs"
    and "0 < unat lc \<or> 0 < sprs"
    and "unat lc + 2048 \<le> 4294967296"
  shows "file_sector (snd st') (unat (rd_lba_start r))
           = file_sector (snd st) (unat (rd_lba_start r))"
  using assms(1,2,3)
proof (induction "BUF_SIZE - sprs" arbitrary: sprs st rule: less_induct)
  case less
  show ?case
  proof (cases "sprs < BUF_SIZE")
    case False
    have "st' = st"
      using less.prems(1) False by (subst (asm) sparse_scan_4k.simps) simp
    then show ?thesis by simp
  next
    case True
    have m: "BUF_SIZE - (sprs + 4096) < BUF_SIZE - sprs" using True by arith
    have d: "4096 dvd sprs + 4096" using less.prems(2) by simp
    have p: "0 < unat lc \<or> 0 < sprs + 4096" by simp
    show ?thesis
    proof (cases "rvth_is_block_empty (take 8 (drop (sprs div 512) buf))")
      case e: True
      have "sparse_scan_4k (Some r) buf lc (sprs + 4096) st = Some st'"
        using less.prems(1) True e by (subst (asm) sparse_scan_4k.simps) simp
      then show ?thesis by (rule less.hyps[OF m _ d p])
    next
      case ne: False
      let ?x = "lc + of_nat (sprs div 512)"
      obtain f' where w: "rd_write (Some r) (snd st) (take 8 (drop (sprs div 512) buf)) ?x 8
                            = Some f'"
        and rec: "sparse_scan_4k (Some r) buf lc (sprs + 4096) (?x + 7, f') = Some st'"
        using less.prems(1) True ne
        by (subst (asm) sparse_scan_4k.simps) (auto split: option.splits)
      have b: "sprs div 512 + 8 \<le> 2048" by (rule sprs_4k_bound[OF less.prems(2) True])
      have "unat lc + sprs div 512 < 4294967296" using b assms(4) by arith
      then have ux: "unat ?x = unat lc + sprs div 512" by (rule unat_add_of_nat32)
      have "0 < unat lc + sprs div 512"
        using less.prems(3) sprs_4k_pos[OF less.prems(2)] by auto
      then have xn: "?x \<noteq> 0" unfolding ux[symmetric] by (rule unat_pos_neq_0)
      have xl: "unat ?x + unat (8::u32) \<le> 4294967296"
        unfolding ux using b assms(4) by simp
      have s1: "file_sector f' (unat (rd_lba_start r))
                  = file_sector (snd st) (unat (rd_lba_start r))"
        by (rule rd_write_other[OF w xn xl])
      have "file_sector (snd st') (unat (rd_lba_start r))
              = file_sector (snd (?x + 7, f')) (unat (rd_lba_start r))"
        by (rule less.hyps[OF m rec d p])
      then show ?thesis using s1 by simp
    qed
  qed
qed

lemma sparse_scan_512_other:
  assumes "sparse_scan_512 (Some r) buf lc sz sprs st = Some st'"
    and "0 < unat lc"
    and "unat lc + sz div 512 < 4294967296"
  shows "file_sector (snd st') (unat (rd_lba_start r))
           = file_sector (snd st) (unat (rd_lba_start r))"
  using assms(1)
proof (induction "sz - sprs" arbitrary: sprs st rule: less_induct)
  case less
  show ?case
  proof (cases "sprs < sz")
    case False
    have "st' = st"
      using less.prems(1) False by (subst (asm) sparse_scan_512.simps) simp
    then show ?thesis by simp
  next
    case True
    have m: "sz - (sprs + 512) < sz - sprs" using True by arith
    show ?thesis
    proof (cases "rvth_is_block_empty (take 1 (drop (sprs div 512) buf))")
      case e: True
      have "sparse_scan_512 (Some r) buf lc sz (sprs + 512) st = Some st'"
        using less.prems(1) True e by (subst (asm) sparse_scan_512.simps) simp
      then show ?thesis by (rule less.hyps[OF m])
    next
      case ne: False
      let ?x = "lc + of_nat (sprs div 512)"
      obtain f' where w: "rd_write (Some r) (snd st) (take 1 (drop (sprs div 512) buf)) ?x 1
                            = Some f'"
        and rec: "sparse_scan_512 (Some r) buf lc sz (sprs + 512) (?x, f') = Some st'"
        using less.prems(1) True ne
        by (subst (asm) sparse_scan_512.simps) (auto split: option.splits)
      have "sprs div 512 \<le> sz div 512" using True by (intro div_le_mono) simp
      then have lt: "unat lc + sprs div 512 < 4294967296" using assms(3) by arith
      then have ux: "unat ?x = unat lc + sprs div 512" by (rule unat_add_of_nat32)
      have "0 < unat lc + sprs div 512" using assms(2) by simp
      then have xn: "?x \<noteq> 0" unfolding ux[symmetric] by (rule unat_pos_neq_0)
      have xl: "unat ?x + unat (1::u32) \<le> 4294967296"
        unfolding ux using lt by simp
      have s1: "file_sector f' (unat (rd_lba_start r))
                  = file_sector (snd st) (unat (rd_lba_start r))"
        by (rule rd_write_other[OF w xn xl])
      have "file_sector (snd st') (unat (rd_lba_start r))
              = file_sector (snd (?x, f')) (unat (rd_lba_start r))"
        by (rule less.hyps[OF m rec])
      then show ?thesis using s1 by simp
    qed
  qed
qed

lemma chunk_step_le:
  assumes "2048 dvd (lc::nat)" and "2048 dvd M" and "lc < M"
  shows "lc + 2048 \<le> M"
proof -
  from assms(1) obtain j where j: "lc = 2048 * j" ..
  from assms(2) obtain k where k: "M = 2048 * k" ..
  have "j < k" using assms(3) unfolding j k by simp
  then have "j + 1 \<le> k" by simp
  then have "2048 * (j + 1) \<le> 2048 * k" by (rule mult_le_mono2)
  then show ?thesis unfolding j k by simp
qed

lemma copy_chunks_gcm_other:
  assumes "copy_chunks_gcm lay cb state rs (Some r) hdr M lc st = Some res"
    and "0 < lc" and "2048 dvd lc" and "2048 dvd M" and "M < 4294967296"
  shows "file_sector (gcm_fd (case res of Inl s \<Rightarrow> s | Inr x \<Rightarrow> snd x)) (unat (rd_lba_start r))
           = file_sector (gcm_fd st) (unat (rd_lba_start r))"
  using assms(1,2,3)
proof (induction "M - lc" arbitrary: lc st rule: less_induct)
  case less
  show ?case
  proof (cases "lc < M")
    case False
    have "res = Inr (lc, st)"
      using less.prems(1) False by (subst (asm) copy_chunks_gcm.simps) simp
    then show ?thesis by simp
  next
    case True
    show ?thesis
    proof (cases "cancelled cb state (of_nat lc)")
      case c: True
      have "res = Inl st"
        using less.prems(1) True c by (subst (asm) copy_chunks_gcm.simps) simp
      then show ?thesis by simp
    next
      case nc: False
      obtain buf ns fs fd where st: "st = (buf, ns, fs, fd)" by (cases st) auto
      have lz: "lc \<noteq> 0" using less.prems(2) by simp
      obtain buf1 fs1 ns1 fd1 where
        sc: "sparse_scan_4k (Some r) buf1 (of_nat lc) 0 (ns, fd) = Some (ns1, fd1)"
        and rec: "copy_chunks_gcm lay cb state rs (Some r) hdr M (lc + 2048) (buf1, ns1, fs1, fd1)
                    = Some res"
        using less.prems(1) True nc lz unfolding st
        by (subst (asm) copy_chunks_gcm.simps) (auto split: option.splits)
      have le: "lc + 2048 \<le> M" by (rule chunk_step_le[OF less.prems(3) assms(4) True])
      have ul: "unat (of_nat lc :: u32) = lc"
        using True assms(5) by (intro unat_of_nat32) arith
      have s1: "file_sector (snd (ns1, fd1)) (unat (rd_lba_start r))
                  = file_sector (snd (ns, fd)) (unat (rd_lba_start r))"
        by (rule sparse_scan_4k_other[OF sc]) (use ul less.prems(2) le assms(5) in simp_all)
      have m: "M - (lc + 2048) < M - lc" using True by arith
      have "file_sector (gcm_fd (case res of Inl s \<Rightarrow> s | Inr x \<Rightarrow> snd x))
                (unat (rd_lba_start r))
              = file_sector (gcm_fd (buf1, ns1, fs1, fd1)) (unat (rd_lba_start r))"
        by (rule less.hyps[OF m rec]) (use less.prems(3) in simp_all)
      then show ?thesis using s1 unfolding st by (simp add: gcm_fd_def)
    qed
  qed
qed

lemma rd_read_first_sector:
  assumes rd: "rd_read (Some rs) fs buf 0 n = Some (buf1, fs1)"
    and sf: "\<not> seek_fails fs"
    and n: "0 < unat n" "unat n \<le> unat (rd_lba_len rs)"
    and nw: "unat (rd_lba_start rs) + unat (rd_lba_len rs) < 4294967296"
    and fl: "unat (rd_lba_start rs) < flen fs"
  shows "\<exists>rest. buf1 = file_sector fs (unat (rd_lba_start rs)) # rest"
proof -
  define s where "s = unat (rd_lba_start rs)"
  have c: "unat (rd_lba_start rs + rd_lba_len rs) = unat (rd_lba_start rs) + unat (rd_lba_len rs)"
    using nw by (rule unat_add32_nowrap)
  have b: "unat (rd_lba_start rs + n) = unat (rd_lba_start rs) + unat n"
    using nw n(2) by (intro unat_add32_nowrap) arith
  have chk: "\<not> rd_lba_start rs + rd_lba_len rs < 0 + rd_lba_start rs + n"
    unfolding word_less_nat_alt using b c n(2) by simp
  let ?f1 = "fs\<lparr>fpos := LBA_TO_BYTES (rd_lba_start rs),
                 iolog := iolog fs @ [IoSeek (LBA_TO_BYTES (rd_lba_start rs))]\<rparr>"
  have r: "reader_plain_read rs fs 0 n
             = (of_nat (length (fst (ref_read ?f1 (unat n)))), fst (ref_read ?f1 (unat n)),
                snd (ref_read ?f1 (unat n)))"
    using chk sf
    by (simp add: reader_plain_read_def Let_def ref_seeko_def lba_to_bytes_nonneg split_beta)
  define k where "k = min (unat n) (flen fs - s)"
  have kp: "0 < k" unfolding k_def using n(1) fl by (simp add: s_def)
  have "fst (ref_read ?f1 (unat n)) = map (content fs) [s ..< s + k]"
    by (simp add: ref_read_def Let_def nat_lba_to_bytes s_def k_def)
  also have "[s ..< s + k] = s # [Suc s ..< s + k]"
    using kp by (simp add: upt_conv_Cons)
  finally have d: "fst (ref_read ?f1 (unat n))
                     = content fs s # map (content fs) [Suc s ..< s + k]"
    by simp
  have fsx: "file_sector fs s = content fs s"
    using fl by (simp add: file_sector_def s_def)
  have "rd_read (Some rs) fs buf 0 n
          = (case buf_store buf (fst (ref_read ?f1 (unat n))) of
               None \<Rightarrow> None
             | Some buf' \<Rightarrow> Some (buf', snd (ref_read ?f1 (unat n))))"
    by (simp add: rd_read_def r split_beta)
  then have "buf_store buf (fst (ref_read ?f1 (unat n))) = Some buf1"
    using rd by (auto split: option.splits)
  then have "buf1 = fst (ref_read ?f1 (unat n))
                      @ drop (length (fst (ref_read ?f1 (unat n)))) buf"
    by (auto simp: buf_store_def split: if_splits)
  then show ?thesis unfolding d fsx s_def[symmetric] by simp
qed

lemma block_empty_header:
  assumes "rvth_is_block_empty (hdr # rest)" and "length hdr = 512"
  shows "hdr = zero_sector"
proof -
  have "\<forall>b\<in>set hdr. b = 0"
    using assms(1) by (simp add: rvth_is_block_empty_def list_all_iff)
  then have "replicate (length hdr) 0 = hdr" by (intro replicate_length_same) simp
  then show ?thesis using assms(2) by (simp add: zero_sector_def)
qed

lemma copy_chunks_gcm_first:
  assumes run: "copy_chunks_gcm lay cb state (Some rs) (Some rd) hdr M 0 (buf, ns, fs, fd)
                  = Some (Inr (lc, st1))"
    and M: "0 < M" "2048 dvd M" "M < 4294967296"
    and src: "\<not> seek_fails fs" "2048 \<le> unat (rd_lba_len rs)"
      "unat (rd_lba_start rs) + unat (rd_lba_len rs) < 4294967296"
      "unat (rd_lba_start rs) < flen fs"
    and dst: "\<not> seek_fails fd" "8 \<le> unat (rd_lba_len rd)"
      "unat (rd_lba_start rd) + unat (rd_lba_len rd) < 4294967296"
    and magic: "magic_wii lay (file_sector fs (unat (rd_lba_start rs))) \<noteq> WII_MAGIC"
      "magic_gcn lay (file_sector fs (unat (rd_lba_start rs))) \<noteq> GCN_MAGIC"
    and hdr: "length hdr = 512"
    and fresh: "file_sector fd (unat (rd_lba_start rd)) = zero_sector"
  shows "file_sector (gcm_fd st1) (unat (rd_lba_start rd)) = hdr"
proof -
  let ?a = "unat (rd_lba_start rd)"
  have nc: "\<not> cancelled cb state 0"
  proof
    assume "cancelled cb state 0"
    then have "copy_chunks_gcm lay cb state (Some rs) (Some rd) hdr M 0 (buf, ns, fs, fd)
                 = Some (Inl (buf, ns, fs, fd))"
      using M(1) by (subst copy_chunks_gcm.simps) simp
    then show False using run by simp
  qed
  obtain buf1 fs1 ns1 fd1 where
    rdr: "rd_read (Some rs) fs buf 0 LBA_COUNT_BUF = Some (buf1, fs1)"
    and sc: "sparse_scan_4k (Some rd) (restore_header lay hdr buf1) 0 0 (ns, fd)
               = Some (ns1, fd1)"
    and rec: "copy_chunks_gcm lay cb state (Some rs) (Some rd) hdr M 2048
                (restore_header lay hdr buf1, ns1, fs1, fd1) = Some (Inr (lc, st1))"
    using run M(1) nc
    by (subst (asm) copy_chunks_gcm.simps) (auto split: option.splits)
  have "\<exists>rest. buf1 = file_sector fs (unat (rd_lba_start rs)) # rest"
    by (rule rd_read_first_sector[OF rdr src(1) _ _ src(3,4)])
       (use src(2) in \<open>simp_all add: LBA_COUNT_BUF_def\<close>)
  then obtain rest where b1: "buf1 = file_sector fs (unat (rd_lba_start rs)) # rest" ..
  have rh: "restore_header lay hdr buf1 = hdr # rest"
    unfolding b1 using magic by (simp add: restore_header_def)
  have s4: "file_sector fd1 ?a = hdr"
  proof (cases "rvth_is_block_empty (take 8 (hdr # rest))")
    case True
    then have "rvth_is_block_empty (hdr # take 7 rest)" by (simp add: take_Cons')
    then have hz: "hdr = zero_sector" by (rule block_empty_header[OF _ hdr])
    have "sparse_scan_4k (Some rd) (hdr # rest) 0 4096 (ns, fd) = Some (ns1, fd1)"
      using sc True unfolding rh
      by (subst (asm) sparse_scan_4k.simps) (simp add: BUF_SIZE_def)
    then have "file_sector (snd (ns1, fd1)) ?a = file_sector (snd (ns, fd)) ?a"
      by (rule sparse_scan_4k_other) simp_all
    then show ?thesis using fresh hz by simp
  next
    case False
    obtain f' where w: "rd_write (Some rd) fd (take 8 (hdr # rest)) 0 8 = Some f'"
      and rec4: "sparse_scan_4k (Some rd) (hdr # rest) 0 4096 (7, f') = Some (ns1, fd1)"
      using sc False unfolding rh
      by (subst (asm) sparse_scan_4k.simps) (auto simp: BUF_SIZE_def split: option.splits)
    have "f' = snd (reader_plain_write rd fd (take 8 (hdr # rest)) 0 8)"
      using w by (simp add: rd_write_def)
    moreover have "file_sector (snd (reader_plain_write rd fd (take 8 (hdr # rest)) 0 8)) ?a
                     = hd (take 8 (hdr # rest))"
      by (rule reader_plain_write_first[OF dst(1) _ _ dst(3)]) (use dst(2) in simp_all)
    ultimately have f0: "file_sector f' ?a = hdr" by (simp add: take_Cons')
    have "file_sector (snd (ns1, fd1)) ?a = file_sector (snd (7::u32, f')) ?a"
      by (rule sparse_scan_4k_other[OF rec4]) simp_all
    then show ?thesis using f0 by simp
  qed
  have "file_sector (gcm_fd (case Inr (lc, st1) of Inl s \<Rightarrow> s | Inr x \<Rightarrow> snd x)) ?a
          = file_sector (gcm_fd (restore_header lay hdr buf1, ns1, fs1, fd1)) ?a"
    by (rule copy_chunks_gcm_other[OF rec _ _ M(2,3)]) simp_all
  then show ?thesis using s4 by (simp add: gcm_fd_def)
qed

lemma copy_chunks_gcm_count:
  assumes "copy_chunks_gcm lay cb state rs rd hdr M lc st = Some (Inr (lc', st'))"
    and "lc \<le> M" and "2048 dvd lc" and "2048 dvd M"
  shows "lc' = M"
  using assms(1,2,3)
proof (induction "M - lc" arbitrary: lc st rule: less_induct)
  case less
  show ?case
  proof (cases "lc < M")
    case False
    have "Inr (lc', st') = (Inr (lc, st) :: gcm_state + nat \<times> gcm_state)"
      using less.prems(1) False by (subst (asm) copy_chunks_gcm.simps) simp
    then show ?thesis using False less.prems(2) by simp
  next
    case True
    obtain st2 where
      rec: "copy_chunks_gcm lay cb state rs rd hdr M (lc + 2048) st2 = Some (Inr (lc', st'))"
      using less.prems(1) True
      by (subst (asm) copy_chunks_gcm.simps) (auto split: option.splits if_splits prod.splits)
    have le: "lc + 2048 \<le> M" by (rule chunk_step_le[OF less.prems(3) assms(4) True])
    have m: "M - (lc + 2048) < M - lc" using True by arith
    show ?thesis by (rule less.hyps[OF m rec le]) (use less.prems(3) in simp)
  qed
qed

lemma copy_tail_gcm_other:
  assumes "copy_tail_gcm cb state rs (Some r) Ls M st = Some res"
    and "0 < M" and "M < 4294967296"
  shows "file_sector (gcm_fd (case res of Inl s \<Rightarrow> s | Inr s \<Rightarrow> s)) (unat (rd_lba_start r))
           = file_sector (gcm_fd st) (unat (rd_lba_start r))"
proof (cases "(of_nat M :: u32) < Ls")
  case False
  then have "res = Inr st" using assms(1) by (simp add: copy_tail_gcm_def)
  then show ?thesis by simp
next
  case True
  show ?thesis
  proof (cases "cancelled cb state (of_nat M)")
    case c: True
    then have "res = Inl st" using assms(1) True by (simp add: copy_tail_gcm_def)
    then show ?thesis by simp
  next
    case nc: False
    obtain buf ns fs fd where st: "st = (buf, ns, fs, fd)" by (cases st) auto
    let ?sz = "BYTES_TO_LBA (unat (Ls - of_nat M))"
    obtain buf1 fs1 ns1 fd1 where
      sc: "sparse_scan_512 (Some r) buf1 (of_nat M) ?sz 0 (ns, fd) = Some (ns1, fd1)"
      and res: "res = Inr (buf1, ns1, fs1, fd1)"
      using assms(1) True nc unfolding st
      by (auto simp: copy_tail_gcm_def split: option.splits)
    have um: "unat (of_nat M :: u32) = M" by (rule unat_of_nat32[OF assms(3)])
    have "M < unat Ls" using True unfolding word_less_nat_alt um .
    moreover have "unat (Ls - of_nat M) = unat Ls - unat (of_nat M :: u32)"
      using True by (intro unat_sub) simp
    ultimately have ul: "unat (Ls - of_nat M) = unat Ls - M" unfolding um by simp
    have "?sz \<le> unat Ls - M"
      unfolding ul BYTES_TO_LBA_def
      by (rule order_trans[OF mod_less_eq_dividend]) simp
    moreover have "?sz div 512 \<le> ?sz" by simp
    ultimately have "M + ?sz div 512 \<le> unat Ls" using \<open>M < unat Ls\<close> by arith
    then have b: "unat (of_nat M :: u32) + ?sz div 512 < 4294967296"
      unfolding um using unat_lt32[of Ls] by arith
    have "file_sector (snd (ns1, fd1)) (unat (rd_lba_start r))
            = file_sector (snd (ns, fd)) (unat (rd_lba_start r))"
      by (rule sparse_scan_512_other[OF sc _ b]) (simp add: um assms(2))
    then show ?thesis unfolding res st by (simp add: gcm_fd_def)
  qed
qed

lemma copy_finish_gcm_other:
  assumes "copy_finish_gcm cb state (Some r) Ls st = Some res"
    and "Ls \<noteq> 1"
  shows "file_sector (gcm_fd (case res of Inl s \<Rightarrow> s | Inr s \<Rightarrow> s)) (unat (rd_lba_start r))
           = file_sector (gcm_fd st) (unat (rd_lba_start r))"
proof (cases "cancelled cb state Ls")
  case True
  then have "res = Inl st" using assms(1) by (simp add: copy_finish_gcm_def)
  then show ?thesis by simp
next
  case nc: False
  obtain buf ns fs fd where st: "st = (buf, ns, fs, fd)" by (cases st) auto
  have fl: "file_sector (ref_flush f) a = file_sector f a" for f a
    by (simp add: ref_flush_def file_sector_def)
  show ?thesis
  proof (cases "ns \<noteq> Ls - 1")
    case False
    then have "res = Inr (buf, ns, fs, ref_flush fd)"
      using assms(1) nc unfolding st
      by (simp add: copy_finish_gcm_def rd_flush_def reader_plain_flush_def)
    then show ?thesis unfolding st by (simp add: gcm_fd_def fl)
  next
    case True
    obtain f' where w: "rd_write (Some r) fd (buf[0 := zero_sector]) (Ls - 1) 1 = Some f'"
      and res: "res = Inr (buf[0 := zero_sector], ns, fs, ref_flush f')"
      using assms(1) nc True unfolding st
      by (auto simp: copy_finish_gcm_def rd_flush_def reader_plain_flush_def
          split: option.splits)
    have xn: "Ls - 1 \<noteq> 0" using assms(2) by simp
    have xl: "unat (Ls - 1) + unat (1::u32) \<le> 4294967296"
      using unat_lt32[of "Ls - 1"] by simp
    have "file_sector f' (unat (rd_lba_start r)) = file_sector fd (unat (rd_lba_start r))"
      by (rule rd_write_other[OF w xn xl])
    then show ?thesis unfolding res st by (simp add: gcm_fd_def fl)
  qed
qed

section \<open>The extract of the flushed example bank\<close>

lemma rvth_copy_to_gcm_body_run:
  assumes "bank_src < bank_count src"
    and "\<not> is_hdd dest"
    and "bank_count dest = 1"
    and "entry_at src bank_src = Some es"
    and "check_bank_type (type es) = None"
    and "malloc_buf env = Some buf"
    and "entry_at dest 0 = Some ed"
    and "\<not> sparse_fails (f_img dest)"
  shows "rvth_copy_to_gcm_body lay env dest src bank_src callback =
           (case copy_run_gcm lay callback
                   \<lparr>ps_type = RVTH_PROGRESS_EXTRACT, bank_rvth = bank_src, bank_gcm = 0,
                    lba_processed = 0, lba_total = lba_len es\<rparr>
                   es ed
                   (buf, 0, f_img src,
                    snd (ref_makeSparse (f_img dest) (LBA_TO_BYTES (lba_len ed)))) of
              None \<Rightarrow> None
            | Some (err, st) \<Rightarrow>
                Some (gcm_result Success err dest (copy_bank_info (time_now env) es ed) src st))"
  using assms by (simp add: rvth_copy_to_gcm_body_def ref_makeSparse_def)

lemma block_empty_replicate: "rvth_is_block_empty (replicate m zero_sector)"
  by (auto simp: rvth_is_block_empty_def list_all_iff zero_sector_def)

lemma block_not_empty_gcn_header: "\<not> rvth_is_block_empty (w_gcn_header # rest)"
  by (simp add: rvth_is_block_empty_def w_gcn_header_def)

lemma sparse_scan_4k_blank_rest:
  assumes "0 < sprs" and "4096 dvd sprs"
  shows "sparse_scan_4k rd (h # replicate 2047 zero_sector) lc sprs st = Some st"
  using assms
proof (induction "BUF_SIZE - sprs" arbitrary: sprs rule: less_induct)
  case less
  show ?case
  proof (cases "sprs < BUF_SIZE")
    case False
    then show ?thesis by (subst sparse_scan_4k.simps) simp
  next
    case True
    have k: "0 < sprs div 512" by (rule sprs_4k_pos[OF less.prems(2,1)])
    have "drop (sprs div 512) (h # replicate 2047 zero_sector)
            = replicate (2047 - (sprs div 512 - 1)) zero_sector"
      using k by (simp add: drop_Cons')
    then have e: "rvth_is_block_empty (take 8 (drop (sprs div 512) (h # replicate 2047 zero_sector)))"
      by (simp add: block_empty_replicate)
    have m: "BUF_SIZE - (sprs + 4096) < BUF_SIZE - sprs" using True by arith
    have "sparse_scan_4k rd (h # replicate 2047 zero_sector) lc (sprs + 4096) st = Some st"
      by (rule less.hyps[OF m]) (use less.prems(2) in simp_all)
    then show ?thesis using True e by (subst sparse_scan_4k.simps) simp
  qed
qed

lemma replicate_2048: "replicate 2048 x = x # replicate 2047 x"
  using replicate_Suc[of 2047 x] by simp

lemma w_flushed_extract_runs:
  "\<exists>d s. rvth_copy_to_gcm_body w_disc_layout w_env w_dest_2048 w_src_2048 0 None
            = Some (Success, None, d, s)"
proof -
  let ?state = "\<lparr>ps_type = RVTH_PROGRESS_EXTRACT, bank_rvth = 0, bank_gcm = 0,
                  lba_processed = 0, lba_total = lba_len w_entry_2048\<rparr>"
  let ?R = "Some w_reader_2048"
  let ?fd0 = "snd (ref_makeSparse (f_img w_dest_2048) (LBA_TO_BYTES (lba_len w_dest_entry_2048)))"
  let ?buf = "replicate 2048 zero_sector"
  let ?buf2 = "w_gcn_header # replicate 2047 zero_sector"
  have "\<exists>fs1. rd_read ?R (f_img w_src_2048) ?buf 0 LBA_COUNT_BUF = Some (?buf, fs1)"
    by (simp add: rd_read_def reader_plain_read_def w_reader_2048_def w_src_2048_def
        blank_file_def ref_seeko_def ref_read_def LBA_TO_BYTES_def LBA_COUNT_BUF_def
        buf_store_def map_replicate_const Let_def del: upt_rec_numeral)
  then obtain fs1 where rdr:
    "rd_read ?R (f_img w_src_2048) ?buf 0 LBA_COUNT_BUF = Some (?buf, fs1)" ..
  have rh: "restore_header w_disc_layout w_gcn_header ?buf = ?buf2"
    unfolding replicate_2048[of zero_sector]
    by (simp add: restore_header_def w_disc_layout_def be32_at_zero_sector WII_MAGIC_def
        GCN_MAGIC_def)
  obtain f' where w: "rd_write ?R ?fd0 (w_gcn_header # replicate 7 zero_sector) 0 8 = Some f'"
    by (simp add: rd_write_def)
  have rest: "sparse_scan_4k ?R ?buf2 0 4096 (7, f') = Some (7, f')"
    by (rule sparse_scan_4k_blank_rest) simp_all
  have sc: "sparse_scan_4k ?R ?buf2 0 0 (0, ?fd0) = Some (7, f')"
    by (subst sparse_scan_4k.simps)
       (simp add: BUF_SIZE_def block_not_empty_gcn_header w rest take_Cons')
  have ch2: "copy_chunks_gcm w_disc_layout None ?state ?R ?R w_gcn_header 2048 2048
               (?buf2, 7, fs1, f') = Some (Inr (2048, (?buf2, 7, fs1, f')))"
    by (subst copy_chunks_gcm.simps) simp
  have ch: "copy_chunks_gcm w_disc_layout None ?state ?R ?R w_gcn_header 2048 0
              (?buf, 0, f_img w_src_2048, ?fd0) = Some (Inr (2048, (?buf2, 7, fs1, f')))"
    by (subst copy_chunks_gcm.simps) (simp add: cancelled_def rdr rh sc ch2)
  have tl: "copy_tail_gcm None ?state ?R ?R (lba_len w_entry_2048) 2048 (?buf2, 7, fs1, f')
              = Some (Inr (?buf2, 7, fs1, f'))"
    by (simp add: copy_tail_gcm_def w_entry_2048_def)
  have "\<exists>st3. copy_finish_gcm None ?state ?R (lba_len w_entry_2048) (?buf2, 7, fs1, f')
                 = Some (Inr st3)"
    by (simp add: copy_finish_gcm_def cancelled_def rd_write_def rd_flush_def)
  then obtain st3 where fi:
    "copy_finish_gcm None ?state ?R (lba_len w_entry_2048) (?buf2, 7, fs1, f') = Some (Inr st3)" ..
  have M: "unat (lba_len w_dest_entry_2048 AND NOT (LBA_COUNT_BUF - 1)) = 2048"
    unfolding lba_buf_max_eq by (simp add: w_dest_entry_2048_def)
  have rdrs: "reader w_entry_2048 = ?R" "reader w_dest_entry_2048 = ?R"
    "discHeader w_entry_2048 = w_gcn_header"
    by (simp_all add: w_entry_2048_def w_dest_entry_2048_def)
  have cr: "copy_run_gcm w_disc_layout None ?state w_entry_2048 w_dest_entry_2048
              (?buf, 0, f_img w_src_2048, ?fd0) = Some (None, st3)"
    unfolding copy_run_gcm_def M rdrs ch by (simp add: tl fi)
  have "rvth_copy_to_gcm_body w_disc_layout w_env w_dest_2048 w_src_2048 0 None =
          (case copy_run_gcm w_disc_layout None ?state w_entry_2048 w_dest_entry_2048
                  (?buf, 0, f_img w_src_2048, ?fd0) of
             None \<Rightarrow> None
           | Some (err, st) \<Rightarrow>
               Some (gcm_result Success err w_dest_2048
                       (copy_bank_info (time_now w_env) w_entry_2048 w_dest_entry_2048)
                       w_src_2048 st))"
    by (rule rvth_copy_to_gcm_body_run)
       (simp_all add: w_src_2048_def w_dest_2048_def entry_at_def w_entry_2048_def w_env_def
          blank_file_def)
  then show ?thesis
    unfolding cr by (cases st3) (simp add: gcm_result_def)
qed

section \<open>The entries of an opened HDD image\<close>

lemma open_hdd_loop_inv:
  assumes "open_hdd_loop lay env n i addr (ents, f) = Inr (ents', f')"
    and "length ents = n"
    and "\<forall>j. j + 1 < i \<longrightarrow> type (ents ! j) = RVTH_BankType_Wii_DL \<longrightarrow>
             ents ! (j + 1) = dl_bank2_entry"
    and "\<forall>k. i \<le> k \<longrightarrow> k < n \<longrightarrow> ents ! k = zero_BankEntry"
  shows "length ents' = n \<and>
         (\<forall>j. j + 1 < n \<longrightarrow> type (ents' ! j) = RVTH_BankType_Wii_DL \<longrightarrow>
              ents' ! (j + 1) = dl_bank2_entry)"
  using assms
proof (induction "n - i" arbitrary: i addr ents f rule: less_induct)
  case less
  show ?case
  proof (cases "i < n")
    case False
    have "ents' = ents"
      using less.prems(1) False by (subst (asm) open_hdd_loop.simps) simp
    then show ?thesis using less.prems(2,3) False by auto
  next
    case True
    have m: "n - (i + 1) < n - i" using True by arith
    show ?thesis
    proof (cases "0 < i \<and> type (ents ! (i - 1)) = RVTH_BankType_Wii_DL")
      case dl: True
      have zi: "ents ! i = zero_BankEntry" using less.prems(4) True by simp
      have rec: "open_hdd_loop lay env n (i + 1) (addr + 512) (ents[i := dl_bank2_entry], f)
                   = Inr (ents', f')"
        using less.prems(1) True dl zi
        by (subst (asm) open_hdd_loop.simps) (simp add: dl_bank2_entry_def)
      have l: "length (ents[i := dl_bank2_entry]) = n" using less.prems(2) by simp
      have i2: "\<forall>j. j + 1 < i + 1 \<longrightarrow>
                  type (ents[i := dl_bank2_entry] ! j) = RVTH_BankType_Wii_DL \<longrightarrow>
                  ents[i := dl_bank2_entry] ! (j + 1) = dl_bank2_entry"
      proof (intro allI impI)
        fix j
        assume a: "j + 1 < i + 1"
          and t: "type (ents[i := dl_bank2_entry] ! j) = RVTH_BankType_Wii_DL"
        show "ents[i := dl_bank2_entry] ! (j + 1) = dl_bank2_entry"
        proof (cases "j + 1 = i")
          case True
          then show ?thesis using less.prems(2) \<open>i < n\<close> by simp
        next
          case False
          then have lt: "j + 1 < i" using a by arith
          then have "type (ents ! j) = RVTH_BankType_Wii_DL" using t by simp
          then have "ents ! (j + 1) = dl_bank2_entry" using less.prems(3) lt by blast
          then show ?thesis using lt by simp
        qed
      qed
      have i3: "\<forall>k. i + 1 \<le> k \<longrightarrow> k < n \<longrightarrow> ents[i := dl_bank2_entry] ! k = zero_BankEntry"
        using less.prems(4) by simp
      show ?thesis by (rule less.hyps[OF m rec l i2 i3])
    next
      case nd: False
      obtain entry f3 where
        rec: "open_hdd_loop lay env n (i + 1) (addr + 512) (ents[i := entry], f3)
                = Inr (ents', f')"
        using less.prems(1) True nd
        by (subst (asm) open_hdd_loop.simps)
           (auto split: prod.splits list.splits bool.splits if_splits)
      have l: "length (ents[i := entry]) = n" using less.prems(2) by simp
      have i2: "\<forall>j. j + 1 < i + 1 \<longrightarrow>
                  type (ents[i := entry] ! j) = RVTH_BankType_Wii_DL \<longrightarrow>
                  ents[i := entry] ! (j + 1) = dl_bank2_entry"
      proof (intro allI impI)
        fix j
        assume a: "j + 1 < i + 1"
          and t: "type (ents[i := entry] ! j) = RVTH_BankType_Wii_DL"
        show "ents[i := entry] ! (j + 1) = dl_bank2_entry"
        proof (cases "j + 1 = i")
          case True
          then have "type (ents ! (i - 1)) = RVTH_BankType_Wii_DL" using t by auto
          then show ?thesis using nd True by simp
        next
          case False
          then have lt: "j + 1 < i" using a by arith
          then have "type (ents ! j) = RVTH_BankType_Wii_DL" using t by simp
          then have "ents ! (j + 1) = dl_bank2_entry" using less.prems(3) lt by blast
          then show ?thesis using lt by simp
        qed
      qed
      have i3: "\<forall>k. i + 1 \<le> k \<longrightarrow> k < n \<longrightarrow> ents[i := entry] ! k = zero_BankEntry"
        using less.prems(4) by simp
      show ?thesis by (rule less.hyps[OF m rec l i2 i3])
    qed
  qed
qed

lemma rvth_open_hdd_entries:
  assumes "rvth_open_hdd lay env f = Some (Inr rvth)"
  shows "length (entries rvth) = bank_count rvth \<and>
         (\<forall>j. j + 1 < bank_count rvth \<longrightarrow> type (entries rvth ! j) = RVTH_BankType_Wii_DL \<longrightarrow>
              entries rvth ! (j + 1) = dl_bank2_entry)"
proof -
  obtain n addr f2 ents f3 where
    lp: "open_hdd_loop lay env n 0 addr (replicate n zero_BankEntry, f2) = Inr (ents, f3)"
    and r: "rvth = \<lparr>f_img = f3, is_hdd = True, bank_count = n, entries = ents\<rparr>"
    using assms
    by (auto simp: rvth_open_hdd_def open_hdd_fail_null open_hdd_fail_no_entries
        open_hdd_fail_entries split: prod.splits list.splits bool.splits if_splits sum.splits)
  have "length ents = n \<and>
        (\<forall>j. j + 1 < n \<longrightarrow> type (ents ! j) = RVTH_BankType_Wii_DL \<longrightarrow>
             ents ! (j + 1) = dl_bank2_entry)"
    by (rule open_hdd_loop_inv[OF lp]) simp_all
  then show ?thesis unfolding r by simp
qed

section \<open>The claims\<close>

text \<open>
  C2. Reader bounds. The claim: every read or write of a plain Reader with
  \<open>lba_rel + n > lba_len\<close> fails, returns 0 and performs no I/O. The bounds check of
  reader_plain.cpp adds 32-bit values, and the sums wrap: on a Reader of 100 LBAs at LBA 0, a
  write of 2 LBAs at \<open>lba_rel = 0xFFFFFFFF\<close> passes the check (the wrapped end is 1), seeks
  to byte \<open>0xFFFFFFFF * 512\<close> and writes both LBAs; the read seeks and reads there. The
  older reader_plain.c has no check at all: a write of 1 LBA at \<open>lba_rel = 100\<close> is
  performed at byte \<open>100 * 512\<close>.
\<close>

theorem reader_plain_bounds_wrap:
  "fst (reader_plain_write w_reader w_file100 [fill_sector 1, fill_sector 2] 0xFFFFFFFF 2) = 2 \<and>
   iolog (snd (reader_plain_write w_reader w_file100 [fill_sector 1, fill_sector 2] 0xFFFFFFFF 2))
     = [IoSeek 2199023255040, IoWrite 2] \<and>
   iolog (snd (snd (reader_plain_read w_reader w_file100 0xFFFFFFFF 2)))
     = [IoSeek 2199023255040, IoRead 0] \<and>
   fst (reader_plain_write_c w_reader w_file100 [fill_sector 1] 100 1) = 1 \<and>
   iolog (snd (reader_plain_write_c w_reader w_file100 [fill_sector 1] 100 1))
     = [IoSeek 51200, IoWrite 1]"
  by (simp add: reader_plain_write_def reader_plain_read_def reader_plain_write_c_def
      ref_seeko_def ref_write_def ref_read_def LBA_TO_BYTES_def w_reader_def w_file100_def
      blank_file_def Let_def)

text \<open>
  C4. The destination length of an unencrypted-to-encrypted extract. The code computes in
  \<open>uint32_t\<close>. Amended claim: without the SDK-header flag, when the game partition has at
  least \<open>0x8000/512 = 64\<close> LBAs and the value of the specification's formula is below
  \<open>2^32\<close>, the length passed on is exactly that value.
\<close>

theorem rvth_extract_gcm_lba_len_exact:
  assumes "unenc_to_enc entry recrypt_key"
    and "64 \<le> uint (pte_lba_len p)"
    and "spec_unenc_gcm_lba_len (uint (pte_lba_len p)) (uint (pte_lba_start p)) < 4294967296"
  shows "rvth_extract_gcm_lba_len entry (Some p) recrypt_key False = Inr (unenc_gcm_lba_len p) \<and>
         uint (unenc_gcm_lba_len p) =
           spec_unenc_gcm_lba_len (uint (pte_lba_len p)) (uint (pte_lba_start p))"
proof -
  define L where "L = unat (pte_lba_len p)"
  define S where "S = unat (pte_lba_start p)"
  have uL: "uint (pte_lba_len p) = int L" and uS: "uint (pte_lba_start p) = int S"
    by (simp_all add: L_def S_def)
  have L64: "64 \<le> L" using assms(2) unfolding uL by arith
  have Llt: "L < 4294967296" unfolding L_def by (rule unat_lt32)
  have sp: "spec_unenc_gcm_lba_len (int L) (int S) = int (exact_nat L S)"
    by (rule spec_nat[OF L64])
  have "int (exact_nat L S) < 4294967296" using assms(3) unfolding uL uS sp .
  then have ex: "exact_nat L S < 4294967296" by arith
  have "unat (unenc_gcm_lba_len p) = gcm_nat L S"
    unfolding L_def S_def by (rule unenc_gcm_lba_len_unat)
  also have "\<dots> = exact_nat L S" by (rule gcm_nat_exact[OF L64 Llt ex])
  finally have u: "unat (unenc_gcm_lba_len p) = exact_nat L S" .
  have "uint (unenc_gcm_lba_len p) = int (unat (unenc_gcm_lba_len p))" by (rule uint_unat32)
  then have r: "uint (unenc_gcm_lba_len p) = spec_unenc_gcm_lba_len (int L) (int S)"
    unfolding u sp .
  have "rvth_extract_gcm_lba_len entry (Some p) recrypt_key False = Inr (unenc_gcm_lba_len p)"
    using assms(1) by (simp add: rvth_extract_gcm_lba_len_def)
  then show ?thesis using r unfolding uL uS by simp
qed

theorem rvth_extract_gcm_lba_len_exact_witness:
  "rvth_extract_gcm_lba_len w_unenc_entry (Some w_pte) 2 False = Inr (unenc_gcm_lba_len w_pte) \<and>
   uint (unenc_gcm_lba_len w_pte) = 9472"
proof -
  have a: "unenc_to_enc w_unenc_entry 2"
    by (simp add: unenc_to_enc_def w_unenc_entry_def zero_BankEntry_def)
  have b: "64 \<le> uint (pte_lba_len w_pte)" by (simp add: w_pte_def)
  have s: "spec_unenc_gcm_lba_len (uint (pte_lba_len w_pte)) (uint (pte_lba_start w_pte)) = 9472"
    by (simp add: spec_unenc_gcm_lba_len_def ceil_div_def w_pte_def Let_def)
  have c: "spec_unenc_gcm_lba_len (uint (pte_lba_len w_pte)) (uint (pte_lba_start w_pte))
             < 4294967296"
    unfolding s by simp
  show ?thesis using rvth_extract_gcm_lba_len_exact[OF a b c] unfolding s .
qed

theorem rvth_extract_gcm_lba_len_counterexample:
  "rvth_extract_gcm_lba_len w_unenc_entry (Some w_pte_empty) 2 False
     = Inr (unenc_gcm_lba_len w_pte_empty) \<and>
   unat (unenc_gcm_lba_len w_pte_empty) = 138551552 \<and>
   spec_unenc_gcm_lba_len (uint (pte_lba_len w_pte_empty)) (uint (pte_lba_start w_pte_empty))
     = 256"
proof -
  have a: "rvth_extract_gcm_lba_len w_unenc_entry (Some w_pte_empty) 2 False
             = Inr (unenc_gcm_lba_len w_pte_empty)"
    by (simp add: rvth_extract_gcm_lba_len_def unenc_to_enc_def w_unenc_entry_def
        zero_BankEntry_def)
  have "unat (unenc_gcm_lba_len w_pte_empty) = gcm_nat 0 0"
    using unenc_gcm_lba_len_unat[of w_pte_empty] by (simp add: w_pte_empty_def)
  then have b: "unat (unenc_gcm_lba_len w_pte_empty) = 138551552"
    unfolding gcm_nat_0_0 .
  have c: "spec_unenc_gcm_lba_len (uint (pte_lba_len w_pte_empty))
             (uint (pte_lba_start w_pte_empty)) = 256"
    by (simp add: spec_unenc_gcm_lba_len_def ceil_div_def w_pte_empty_def Let_def)
  show ?thesis using a b c by simp
qed

text \<open>
  C5. The bank table header. The bank count is stored in the object before it is tested,
  and a count outside 8..32 leaves through \<open>fail:\<close> with \<open>ret = -err\<close>, \<open>err\<close> being \<open>errno\<close>
  or, when that is 0, \<open>ENOMEM\<close>; there \<open>rvth_close\<close> walks \<open>bank_count\<close> entries of an array
  that was never allocated. With the magic "NHCD" in place: a count of 0 makes
  \<open>rvth_open_hdd\<close> fail with that negative POSIX code, and every other count outside 8..32
  makes it read through the NULL \<open>entries\<close> pointer. In neither case is the result
  \<open>RVTH_ERROR_INVALID_BANK_COUNT\<close>.
\<close>

theorem rvth_open_hdd_bad_bank_count:
  assumes "ref_seeko f (LBA_TO_BYTES (NHCD_BANKTABLE_ADDRESS_LBA lay)) = (True, f1)"
    and "ref_read f1 1 = ([hdr], f2)"
    and "header_magic lay hdr = NHCD_BANKTABLE_MAGIC"
    and "calloc_rvth_ok env"
    and "unat (header_bank_count lay hdr) < 8 \<or> 32 < unat (header_bank_count lay hdr)"
  shows "rvth_open_hdd lay env f =
           (if unat (header_bank_count lay hdr) = 0
            then Some (Inl (Posix (errno_or (open_errno env) ENOMEM),
                            errno_or (open_errno env) ENOMEM))
            else None)"
  using assms by (simp add: rvth_open_hdd_def open_hdd_fail_no_entries)

theorem rvth_open_hdd_bad_bank_count_witness:
  "header_magic w_nhcd_layout (w_nhcd_header 7) = NHCD_BANKTABLE_MAGIC \<and>
   unat (header_bank_count w_nhcd_layout (w_nhcd_header 7)) = 7 \<and>
   rvth_open_hdd w_nhcd_layout w_open_env w_hdd_7banks = None \<and>
   header_magic w_nhcd_layout (w_nhcd_header 0) = NHCD_BANKTABLE_MAGIC \<and>
   unat (header_bank_count w_nhcd_layout (w_nhcd_header 0)) = 0 \<and>
   rvth_open_hdd w_nhcd_layout w_open_env w_hdd_0banks = Some (Inl (Posix ENOMEM, ENOMEM))"
proof -
  have a: "ref_seeko w_hdd_7banks (LBA_TO_BYTES (NHCD_BANKTABLE_ADDRESS_LBA w_nhcd_layout))
             = (True, w_hdd_7banks\<lparr>fpos := 1610612736, iolog := [IoSeek 1610612736]\<rparr>)"
    by (simp add: ref_seeko_def LBA_TO_BYTES_def w_nhcd_layout_def w_hdd_7banks_def
        blank_file_def)
  have b: "ref_read (w_hdd_7banks\<lparr>fpos := 1610612736, iolog := [IoSeek 1610612736]\<rparr>) 1
             = ([w_nhcd_header 7],
                w_hdd_7banks\<lparr>fpos := 1610613248, iolog := [IoSeek 1610612736, IoRead 1]\<rparr>)"
    by (simp add: ref_read_def w_hdd_7banks_def blank_file_def Let_def)
  have a0: "ref_seeko w_hdd_0banks (LBA_TO_BYTES (NHCD_BANKTABLE_ADDRESS_LBA w_nhcd_layout))
             = (True, w_hdd_0banks\<lparr>fpos := 1610612736, iolog := [IoSeek 1610612736]\<rparr>)"
    by (simp add: ref_seeko_def LBA_TO_BYTES_def w_nhcd_layout_def w_hdd_0banks_def
        blank_file_def)
  have b0: "ref_read (w_hdd_0banks\<lparr>fpos := 1610612736, iolog := [IoSeek 1610612736]\<rparr>) 1
             = ([w_nhcd_header 0],
                w_hdd_0banks\<lparr>fpos := 1610613248, iolog := [IoSeek 1610612736, IoRead 1]\<rparr>)"
    by (simp add: ref_read_def w_hdd_0banks_def blank_file_def Let_def)
  have c: "header_magic w_nhcd_layout (w_nhcd_header 7) = NHCD_BANKTABLE_MAGIC"
    "header_magic w_nhcd_layout (w_nhcd_header 0) = NHCD_BANKTABLE_MAGIC"
    by (simp_all add: w_nhcd_layout_def w_nhcd_header_def be32_at_def NHCD_BANKTABLE_MAGIC_def)
  have d: "calloc_rvth_ok w_open_env" by (simp add: w_open_env_def)
  have n: "unat (header_bank_count w_nhcd_layout (w_nhcd_header 7)) = 7"
    "unat (header_bank_count w_nhcd_layout (w_nhcd_header 0)) = 0"
    by (simp_all add: w_nhcd_layout_def w_nhcd_header_def be32_at_def)
  have e: "unat (header_bank_count w_nhcd_layout (w_nhcd_header 7)) < 8 \<or>
           32 < unat (header_bank_count w_nhcd_layout (w_nhcd_header 7))"
    "unat (header_bank_count w_nhcd_layout (w_nhcd_header 0)) < 8 \<or>
           32 < unat (header_bank_count w_nhcd_layout (w_nhcd_header 0))"
    unfolding n by simp_all
  have r: "errno_or (open_errno w_open_env) ENOMEM = ENOMEM"
    by (simp add: errno_or_def w_open_env_def)
  show ?thesis
    using rvth_open_hdd_bad_bank_count[OF a b c(1) d e(1)]
      rvth_open_hdd_bad_bank_count[OF a0 b0 c(2) d e(2)] c n
    unfolding r by simp
qed



text \<open>
  C1. Sparse faithfulness of an extract. The remainder of a bank (what follows its last
  full 1 MiB chunk) is scanned while \<open>sprs < sz_left\<close>, and \<open>sz_left\<close> is
  \<open>BYTES_TO_LBA(lba_left)\<close>, that is \<open>lba_left / 512\<close>, where the size in bytes is meant.
  The extract of a GameCube bank of two LBAs, neither blank, into a new file succeeds and
  leaves both LBAs of the destination zero: the only write is the zeroed final sector.
\<close>

theorem rvth_copy_to_gcm_drops_tail:
  "map_option (\<lambda>(ret, err, d, s). (ret, err, flen (f_img d), file_sector (f_img d) 0,
        file_sector (f_img d) 1, iolog (f_img d)))
     (rvth_copy_to_gcm_body w_disc_layout w_env w_gcm_dest
        (w_src RVTH_BankType_GCN RVTH_CryptoType_Unknown) 0 None)
     = Some (Success, None, 2, zero_sector, zero_sector,
             [IoMakeSparse 1024, IoSeek 512, IoWrite 1, IoFlush]) \<and>
   file_sector (f_img (w_src RVTH_BankType_GCN RVTH_CryptoType_Unknown)) 0 = fill_sector 1 \<and>
   fill_sector 1 \<noteq> zero_sector"
  by (simp add: rvth_copy_to_gcm_body_def w_src_def w_src_entry_def w_src_file_def
      w_gcm_dest_def w_env_def entry_at_def zero_BankEntry_def
      ref_makeSparse_def blank_file_def LBA_TO_BYTES_def copy_run_gcm_def lba_buf_max_2
      copy_chunks_gcm.simps copy_tail_gcm_def cancelled_def rd_read_def reader_plain_read_def
      ref_seeko_def ref_read_def buf_store_def BYTES_TO_LBA_def sparse_scan_512.simps
      copy_finish_gcm_def rd_write_def reader_plain_write_def ref_write_def rd_flush_def
      reader_plain_flush_def ref_flush_def gcm_result_def file_sector_def
      fill_sector_neq_zero Let_def)

text \<open>
  C3. Cancellation. When the callback answers \<open>false\<close> at the first boundary of an
  extract, \<open>err\<close> is set to \<open>ECANCELED\<close> and the code jumps to \<open>end\<close>, where \<open>ret\<close> is
  returned as it was: 0. Nothing is copied, and the call reports success.
\<close>

theorem rvth_copy_to_gcm_cancel_returns_0:
  assumes "bank_src < bank_count src"
    and "\<not> is_hdd dest"
    and "bank_count dest = 1"
    and "entry_at src bank_src = Some es"
    and "check_bank_type (type es) = None"
    and "malloc_buf env = Some buf"
    and "entry_at dest 0 = Some ed"
    and "\<not> sparse_fails (f_img dest)"
    and "cancelled callback
           \<lparr>ps_type = RVTH_PROGRESS_EXTRACT, bank_rvth = bank_src, bank_gcm = 0,
            lba_processed = 0, lba_total = lba_len es\<rparr> 0"
  shows "rvth_copy_to_gcm_body lay env dest src bank_src callback =
           Some (Success, Some ECANCELED,
                 dest\<lparr>f_img := snd (ref_makeSparse (f_img dest) (LBA_TO_BYTES (lba_len ed))),
                      entries := (entries dest)[0 := copy_bank_info (time_now env) es ed]\<rparr>,
                 src)"
  using assms(1-8)
  by (simp add: rvth_copy_to_gcm_body_def ref_makeSparse_def
      copy_run_gcm_cancel_first[OF assms(9)] gcm_result_def)

theorem rvth_copy_to_gcm_cancel_returns_0_witness:
  "map_option (\<lambda>(ret, err, d, s). (ret, err, iolog (f_img d), iolog (f_img s)))
     (rvth_copy_to_gcm_body w_disc_layout w_env w_gcm_dest
        (w_src RVTH_BankType_GCN RVTH_CryptoType_Unknown) 0 (Some (\<lambda>s. False)))
     = Some (Success, Some ECANCELED, [IoMakeSparse 1024], [])"
proof -
  have e: "entry_at (w_src RVTH_BankType_GCN RVTH_CryptoType_Unknown) 0
             = Some (w_src_entry RVTH_BankType_GCN RVTH_CryptoType_Unknown)"
    by (simp add: entry_at_def w_src_def)
  have f: "entry_at w_gcm_dest 0 = Some (hd (entries w_gcm_dest))"
    by (simp add: entry_at_def w_gcm_dest_def)
  have c: "cancelled (Some (\<lambda>s. False))
             \<lparr>ps_type = RVTH_PROGRESS_EXTRACT, bank_rvth = 0, bank_gcm = 0, lba_processed = 0,
              lba_total = lba_len (w_src_entry RVTH_BankType_GCN RVTH_CryptoType_Unknown)\<rparr> 0"
    by (simp add: cancelled_def)
  have "rvth_copy_to_gcm_body w_disc_layout w_env w_gcm_dest
          (w_src RVTH_BankType_GCN RVTH_CryptoType_Unknown) 0 (Some (\<lambda>s. False)) =
        Some (Success, Some ECANCELED,
              w_gcm_dest\<lparr>f_img := snd (ref_makeSparse (f_img w_gcm_dest)
                                         (LBA_TO_BYTES (lba_len (hd (entries w_gcm_dest))))),
                entries := (entries w_gcm_dest)
                  [0 := copy_bank_info (time_now w_env)
                          (w_src_entry RVTH_BankType_GCN RVTH_CryptoType_Unknown)
                          (hd (entries w_gcm_dest))]\<rparr>,
              w_src RVTH_BankType_GCN RVTH_CryptoType_Unknown)"
    by (rule rvth_copy_to_gcm_cancel_returns_0[OF _ _ _ e _ _ f _ c])
       (simp_all add: w_src_def w_gcm_dest_def w_src_entry_def w_env_def blank_file_def)
  then show ?thesis
    by (simp add: w_gcm_dest_def ref_makeSparse_def blank_file_def LBA_TO_BYTES_def
        w_src_def w_src_file_def)
qed

text \<open>
  C6. The Dual-Layer rules of an import. The checks are made in this order, and the first
  that fails decides the error: an extended table and bank 0, the last bank, the
  destination bank itself, the following bank, the size. Amended claim, for every import of
  a WiiDualLayer source into an HDD destination with valid bank numbers: an extended table
  (more than 8 banks) and bank 0 give ImportDLExtNoBank1; the last bank gives
  ImportDLLastBank; otherwise a destination bank that is neither Empty nor deleted gives
  BankNotEmptyOrDeleted; otherwise a following bank that is neither Empty nor deleted gives
  Bank2DLNotEmptyOrDeleted; otherwise a source longer than twice the bank size gives
  ImageTooBig.
\<close>

theorem rvth_copy_to_hdd_dl_rules:
  assumes "bank_src < bank_count src"
    and "bank_dest < bank_count dest"
    and "is_hdd dest"
    and "length (entries dest) = bank_count dest"
    and "entry_at src bank_src = Some entry_src"
    and "type entry_src = RVTH_BankType_Wii_DL"
  shows "(8 < bank_count dest \<and> bank_dest = 0 \<longrightarrow>
            rvth_copy_to_hdd_body ops env dest bank_dest src bank_src callback =
              Some (Rvth RVTH_ERROR_IMPORT_DL_EXT_NO_BANK1, Some EINVAL, dest, src)) \<and>
         (bank_dest = bank_count dest - 1 \<longrightarrow>
            rvth_copy_to_hdd_body ops env dest bank_dest src bank_src callback =
              Some (Rvth RVTH_ERROR_IMPORT_DL_LAST_BANK, Some EINVAL, dest, src)) \<and>
         (bank_dest \<noteq> bank_count dest - 1 \<and> (bank_count dest \<le> 8 \<or> bank_dest \<noteq> 0) \<and>
          not_empty_or_deleted (entries dest ! bank_dest) \<longrightarrow>
            rvth_copy_to_hdd_body ops env dest bank_dest src bank_src callback =
              Some (Rvth RVTH_ERROR_BANK_NOT_EMPTY_OR_DELETED, Some EEXIST, dest, src)) \<and>
         (bank_dest \<noteq> bank_count dest - 1 \<and> (bank_count dest \<le> 8 \<or> bank_dest \<noteq> 0) \<and>
          \<not> not_empty_or_deleted (entries dest ! bank_dest) \<and>
          not_empty_or_deleted (entries dest ! (bank_dest + 1)) \<longrightarrow>
            rvth_copy_to_hdd_body ops env dest bank_dest src bank_src callback =
              Some (Rvth RVTH_ERROR_BANK2DL_NOT_EMPTY_OR_DELETED, Some EEXIST, dest, src)) \<and>
         (bank_dest \<noteq> bank_count dest - 1 \<and> (bank_count dest \<le> 8 \<or> bank_dest \<noteq> 0) \<and>
          \<not> not_empty_or_deleted (entries dest ! bank_dest) \<and>
          \<not> not_empty_or_deleted (entries dest ! (bank_dest + 1)) \<and>
          NHCD_BANK_SIZE_LBA ops * 2 < unat (lba_len entry_src) \<longrightarrow>
            rvth_copy_to_hdd_body ops env dest bank_dest src bank_src callback =
              Some (Rvth RVTH_ERROR_IMAGE_TOO_BIG, Some ENOSPC, dest, src))"
proof -
  have ed: "entry_at dest bank_dest = Some (entries dest ! bank_dest)"
    using assms(2,4) by (simp add: entry_at_def)
  note fails = rvth_copy_to_hdd_body_check_fails[OF assms(1,2,3,5,6) ed]
  note order = check_import_dl_order[OF assms(6,2,4),
      of ops "entries dest ! bank_dest"]
  show ?thesis using fails order by blast
qed

theorem rvth_copy_to_hdd_dl_rules_witness:
  "rvth_copy_to_hdd_body w_ops w_env w_hdd_ext 0 (w_src RVTH_BankType_Wii_DL RVTH_CryptoType_Debug) 0 None
     = Some (Rvth RVTH_ERROR_IMPORT_DL_EXT_NO_BANK1, Some EINVAL, w_hdd_ext,
             w_src RVTH_BankType_Wii_DL RVTH_CryptoType_Debug) \<and>
   rvth_copy_to_hdd_body w_ops w_env w_hdd 7 (w_src RVTH_BankType_Wii_DL RVTH_CryptoType_Debug) 0 None
     = Some (Rvth RVTH_ERROR_IMPORT_DL_LAST_BANK, Some EINVAL, w_hdd,
             w_src RVTH_BankType_Wii_DL RVTH_CryptoType_Debug) \<and>
   rvth_copy_to_hdd_body w_ops w_env w_hdd 3 (w_src RVTH_BankType_Wii_DL RVTH_CryptoType_Debug) 0 None
     = Some (Rvth RVTH_ERROR_BANK_NOT_EMPTY_OR_DELETED, Some EEXIST, w_hdd,
             w_src RVTH_BankType_Wii_DL RVTH_CryptoType_Debug) \<and>
   rvth_copy_to_hdd_body w_ops w_env w_hdd 2 (w_src RVTH_BankType_Wii_DL RVTH_CryptoType_Debug) 0 None
     = Some (Rvth RVTH_ERROR_BANK2DL_NOT_EMPTY_OR_DELETED, Some EEXIST, w_hdd,
             w_src RVTH_BankType_Wii_DL RVTH_CryptoType_Debug) \<and>
   rvth_copy_to_hdd_body w_ops w_env w_hdd 4 w_src_big 0 None
     = Some (Rvth RVTH_ERROR_IMAGE_TOO_BIG, Some ENOSPC, w_hdd, w_src_big)"
proof -
  let ?dl = "w_src RVTH_BankType_Wii_DL RVTH_CryptoType_Debug"
  have s: "0 < bank_count ?dl"
    "entry_at ?dl 0 = Some (w_src_entry RVTH_BankType_Wii_DL RVTH_CryptoType_Debug)"
    "type (w_src_entry RVTH_BankType_Wii_DL RVTH_CryptoType_Debug) = RVTH_BankType_Wii_DL"
    by (simp_all add: w_src_def entry_at_def w_src_entry_def)
  have b: "0 < bank_count w_src_big"
    "entry_at w_src_big 0 =
       Some ((w_src_entry RVTH_BankType_Wii_DL RVTH_CryptoType_Debug)\<lparr>lba_len := 20000000\<rparr>)"
    "type ((w_src_entry RVTH_BankType_Wii_DL RVTH_CryptoType_Debug)\<lparr>lba_len := 20000000\<rparr>)
       = RVTH_BankType_Wii_DL"
    by (simp_all add: w_src_big_def entry_at_def w_src_entry_def)
  have h: "is_hdd w_hdd" "length (entries w_hdd) = bank_count w_hdd"
    by (simp_all add: w_hdd_def)
  have x: "is_hdd w_hdd_ext" "length (entries w_hdd_ext) = bank_count w_hdd_ext"
    by (simp_all add: w_hdd_ext_def)
  have h7: "7 < bank_count w_hdd" and h2: "2 < bank_count w_hdd" and h4: "4 < bank_count w_hdd"
    and h3: "3 < bank_count w_hdd"
    by (simp_all add: w_hdd_def)
  have x0: "0 < bank_count w_hdd_ext" by (simp add: w_hdd_ext_def)
  have c1: "8 < bank_count w_hdd_ext \<and> (0::nat) = 0" by (simp add: w_hdd_ext_def)
  have c2: "7 = bank_count w_hdd - 1" by (simp add: w_hdd_def)
  have c3: "3 \<noteq> bank_count w_hdd - 1 \<and> (bank_count w_hdd \<le> 8 \<or> (3::nat) \<noteq> 0) \<and>
            not_empty_or_deleted (entries w_hdd ! 3)"
    by (simp add: w_hdd_def not_empty_or_deleted_def w_bank_used_def zero_BankEntry_def)
  have c4: "2 \<noteq> bank_count w_hdd - 1 \<and> (bank_count w_hdd \<le> 8 \<or> (2::nat) \<noteq> 0) \<and>
            \<not> not_empty_or_deleted (entries w_hdd ! 2) \<and>
            not_empty_or_deleted (entries w_hdd ! (2 + 1))"
    by (simp add: w_hdd_def not_empty_or_deleted_def w_bank_empty_def w_bank_used_def
        zero_BankEntry_def)
  have c5: "4 \<noteq> bank_count w_hdd - 1 \<and> (bank_count w_hdd \<le> 8 \<or> (4::nat) \<noteq> 0) \<and>
            \<not> not_empty_or_deleted (entries w_hdd ! 4) \<and>
            \<not> not_empty_or_deleted (entries w_hdd ! (4 + 1)) \<and>
            NHCD_BANK_SIZE_LBA w_ops * 2
              < unat (lba_len ((w_src_entry RVTH_BankType_Wii_DL RVTH_CryptoType_Debug)
                                 \<lparr>lba_len := 20000000\<rparr>))"
    by (simp add: w_hdd_def not_empty_or_deleted_def w_bank_empty_def w_ops_def
        zero_BankEntry_def)
  note t1 = rvth_copy_to_hdd_dl_rules[OF s(1) x0 x s(2,3), of w_ops w_env None]
  note t2 = rvth_copy_to_hdd_dl_rules[OF s(1) h7 h s(2,3), of w_ops w_env None]
  note t3 = rvth_copy_to_hdd_dl_rules[OF s(1) h3 h s(2,3), of w_ops w_env None]
  note t4 = rvth_copy_to_hdd_dl_rules[OF s(1) h2 h s(2,3), of w_ops w_env None]
  note t5 = rvth_copy_to_hdd_dl_rules[OF b(1) h4 h b(2,3), of w_ops w_env None]
  note r1 = conjunct1[OF t1, THEN mp, OF c1]
  note r2 = conjunct1[OF conjunct2[OF t2], THEN mp, OF c2]
  note r3 = conjunct1[OF conjunct2[OF conjunct2[OF t3]], THEN mp, OF c3]
  note r4 = conjunct1[OF conjunct2[OF conjunct2[OF conjunct2[OF t4]]], THEN mp, OF c4]
  note r5 = conjunct2[OF conjunct2[OF conjunct2[OF conjunct2[OF t5]]], THEN mp, OF c5]
  show ?thesis
    by (rule conjI[OF r1 conjI[OF r2 conjI[OF r3 conjI[OF r4 r5]]]])
qed

theorem rvth_copy_to_hdd_dl_rules_counterexample:
  "type (w_src_entry RVTH_BankType_Wii_DL RVTH_CryptoType_Debug) = RVTH_BankType_Wii_DL \<and>
   is_hdd w_hdd \<and>
   not_empty_or_deleted (entries w_hdd ! 1) \<and>
   rvth_copy_to_hdd_body w_ops w_env w_hdd 0 (w_src RVTH_BankType_Wii_DL RVTH_CryptoType_Debug) 0 None
     = Some (Rvth RVTH_ERROR_BANK_NOT_EMPTY_OR_DELETED, Some EEXIST, w_hdd,
             w_src RVTH_BankType_Wii_DL RVTH_CryptoType_Debug)"
  by (simp add: rvth_copy_to_hdd_body_def w_hdd_def w_src_def w_src_entry_def entry_at_def
      check_import_def check_import_size_def not_empty_or_deleted_def w_bank_used_def
      zero_BankEntry_def)

text \<open>
  C7. The policy after an import. When the copy of \<open>rvth_import\<close> returns 0, leaving the
  object \<open>dest1\<close> whose imported bank is \<open>entry\<close>: a Wii image (single- or dual-layer) whose
  encryption is Retail or Korean, or whose ticket or TMD signature is not OK, is re-encrypted
  to Debug by \<open>rvth_recrypt_partitions\<close>; every other bank gets the "imported" identifier
  from \<open>rvth_recrypt_id\<close>.
\<close>

theorem rvth_import_post_policy:
  assumes "bank < bank_count dest"
    and "\<not> is_hdd src"
    and "bank_count src = 1"
    and "rvth_copy_to_hdd_body ops env dest bank src 0 callback = Some (Success, err, dest1, src1)"
    and "bank < bank_count dest1"
    and "entry_at dest1 bank = Some entry"
  shows "((type entry = RVTH_BankType_Wii_SL \<or> type entry = RVTH_BankType_Wii_DL) \<and>
          (crypto_type entry = RVTH_CryptoType_Retail \<or>
           crypto_type entry = RVTH_CryptoType_Korean \<or>
           sig_status (ticket entry) \<noteq> RVTH_SigStatus_OK \<or>
           sig_status (tmd entry) \<noteq> RVTH_SigStatus_OK) \<longrightarrow>
            rvth_import ops env (Some dest) bank True (Some src, ret0) callback =
              Some (fst (rvth_recrypt_partitions ops dest1 bank RVTH_CryptoType_Debug callback),
                    Some (snd (rvth_recrypt_partitions ops dest1 bank
                                 RVTH_CryptoType_Debug callback)))) \<and>
         (\<not> ((type entry = RVTH_BankType_Wii_SL \<or> type entry = RVTH_BankType_Wii_DL) \<and>
             (crypto_type entry = RVTH_CryptoType_Retail \<or>
              crypto_type entry = RVTH_CryptoType_Korean \<or>
              sig_status (ticket entry) \<noteq> RVTH_SigStatus_OK \<or>
              sig_status (tmd entry) \<noteq> RVTH_SigStatus_OK)) \<longrightarrow>
            rvth_import ops env (Some dest) bank True (Some src, ret0) callback =
              Some (fst (rvth_recrypt_id ops dest1 bank),
                    Some (snd (rvth_recrypt_id ops dest1 bank))))"
  using assms
  by (simp add: rvth_import_def rvth_get_BankEntry_def needs_debug_recrypt_def split_beta)

theorem rvth_import_post_policy_witness:
  "rvth_import w_ops w_env (Some w_hdd) 4 True
       (Some (w_src RVTH_BankType_Wii_SL RVTH_CryptoType_Retail), Success) None =
     Some (fst (rvth_recrypt_partitions w_ops
                  (w_imp_dest RVTH_BankType_Wii_SL RVTH_CryptoType_Retail) 4
                  RVTH_CryptoType_Debug None),
           Some (snd (rvth_recrypt_partitions w_ops
                  (w_imp_dest RVTH_BankType_Wii_SL RVTH_CryptoType_Retail) 4
                  RVTH_CryptoType_Debug None))) \<and>
   rvth_import w_ops w_env (Some w_hdd) 4 True
       (Some (w_src RVTH_BankType_GCN RVTH_CryptoType_Unknown), Success) None =
     Some (fst (rvth_recrypt_id w_ops (w_imp_dest RVTH_BankType_GCN RVTH_CryptoType_Unknown) 4),
           Some (snd (rvth_recrypt_id w_ops
                  (w_imp_dest RVTH_BankType_GCN RVTH_CryptoType_Unknown) 4)))"
proof -
  have b: "4 < bank_count w_hdd" by (simp add: w_hdd_def)
  have s: "\<not> is_hdd (w_src t c)" "bank_count (w_src t c) = 1" for t c
    by (simp_all add: w_src_def)
  have d: "4 < bank_count (w_imp_dest t c)"
    "entry_at (w_imp_dest t c) 4 = Some (w_imp_entry t c)" for t c
    by (simp_all add: w_imp_dest_def w_hdd_def entry_at_def)
  have c1: "rvth_copy_to_hdd_body w_ops w_env w_hdd 4
              (w_src RVTH_BankType_Wii_SL RVTH_CryptoType_Retail) 0 None
            = Some (Success, None, w_imp_dest RVTH_BankType_Wii_SL RVTH_CryptoType_Retail,
                    w_imp_src RVTH_BankType_Wii_SL RVTH_CryptoType_Retail)"
    by (rule w_import_copy) simp_all
  have c2: "rvth_copy_to_hdd_body w_ops w_env w_hdd 4
              (w_src RVTH_BankType_GCN RVTH_CryptoType_Unknown) 0 None
            = Some (Success, None, w_imp_dest RVTH_BankType_GCN RVTH_CryptoType_Unknown,
                    w_imp_src RVTH_BankType_GCN RVTH_CryptoType_Unknown)"
    by (rule w_import_copy) simp_all
  have e1: "type (w_imp_entry RVTH_BankType_Wii_SL RVTH_CryptoType_Retail) = RVTH_BankType_Wii_SL"
    "crypto_type (w_imp_entry RVTH_BankType_Wii_SL RVTH_CryptoType_Retail)
       = RVTH_CryptoType_Retail"
    by (simp_all add: w_imp_entry_def copy_bank_info_hdd_def copy_bank_info_def
        w_src_entry_def)
  have e2: "type (w_imp_entry RVTH_BankType_GCN RVTH_CryptoType_Unknown) = RVTH_BankType_GCN"
    by (simp add: w_imp_entry_def copy_bank_info_hdd_def copy_bank_info_def w_src_entry_def)
  show ?thesis
    using rvth_import_post_policy[OF b s c1 d, of Success] e1
      rvth_import_post_policy[OF b s c2 d, of Success] e2
    by simp
qed

text \<open>
  C8. Header restoration. The source says "Make sure we copy the disc header in if the
  header was zeroed by the RVT-H's Flush function", and makes the overlay inside the loop
  over the full 1 MiB chunks, when \<open>lba_count\<close> is 0 ("TODO: Move this outside of the
  for loop"). A bank shorter than one chunk never enters the loop: the extract of a
  two-LBA bank whose LBA 0 was zeroed on disk succeeds, and LBA 0 of the file is zero, not
  the cached disc header.
\<close>

theorem rvth_copy_to_gcm_header_not_restored:
  "magic_wii w_disc_layout (file_sector (f_img w_src_flushed) 0) \<noteq> WII_MAGIC \<and>
   magic_gcn w_disc_layout (file_sector (f_img w_src_flushed) 0) \<noteq> GCN_MAGIC \<and>
   map_option (\<lambda>(ret, err, d, s). (ret, err, file_sector (f_img d) 0))
     (rvth_copy_to_gcm_body w_disc_layout w_env w_gcm_dest w_src_flushed 0 None)
     = Some (Success, None, zero_sector) \<and>
   map discHeader (entries w_src_flushed) = [w_gcn_header] \<and>
   w_gcn_header \<noteq> zero_sector"
proof -
  have z: "file_sector (f_img w_src_flushed) 0 = zero_sector"
    by (simp add: w_src_flushed_def file_sector_def blank_file_def)
  have m: "magic_wii w_disc_layout zero_sector \<noteq> WII_MAGIC"
    "magic_gcn w_disc_layout zero_sector \<noteq> GCN_MAGIC"
    by (simp_all add: w_disc_layout_def be32_at_zero_sector WII_MAGIC_def GCN_MAGIC_def)
  have r: "map_option (\<lambda>(ret, err, d, s). (ret, err, file_sector (f_img d) 0))
     (rvth_copy_to_gcm_body w_disc_layout w_env w_gcm_dest w_src_flushed 0 None)
     = Some (Success, None, zero_sector)"
    by (simp add: rvth_copy_to_gcm_body_def w_src_flushed_def w_src_entry_def
      w_gcm_dest_def w_env_def entry_at_def zero_BankEntry_def
      ref_makeSparse_def blank_file_def LBA_TO_BYTES_def copy_run_gcm_def lba_buf_max_2
      copy_chunks_gcm.simps copy_tail_gcm_def cancelled_def rd_read_def reader_plain_read_def
      ref_seeko_def ref_read_def buf_store_def BYTES_TO_LBA_def sparse_scan_512.simps
      copy_finish_gcm_def rd_write_def reader_plain_write_def ref_write_def rd_flush_def
      reader_plain_flush_def ref_flush_def gcm_result_def file_sector_def Let_def)
  have h: "map discHeader (entries w_src_flushed) = [w_gcn_header]"
    by (simp add: w_src_flushed_def)
  show ?thesis using m r h w_gcn_header_neq_zero unfolding z by simp
qed

text \<open>
  C9. Dual-layer entries of an opened HDD image. A bank table whose last slot is a
  dual-layer Wii image ("TODO: Cannot start in Bank 8" in the source) is opened without
  complaint: the last entry has the type WiiDualLayer and no entry follows it.
\<close>

theorem rvth_open_hdd_dl_last_bank:
  "(case rvth_open_hdd w_nhcd_layout w_open_env w_hdd_dl_last of
      Some (Inr rvth) \<Rightarrow> Some (bank_count rvth, map type (entries rvth))
    | _ \<Rightarrow> None)
   = Some (8, [RVTH_BankType_Empty, RVTH_BankType_Empty, RVTH_BankType_Empty,
               RVTH_BankType_Empty, RVTH_BankType_Empty, RVTH_BankType_Empty,
               RVTH_BankType_Empty, RVTH_BankType_Wii_DL])"
proof -
  have hm: "header_magic w_nhcd_layout (w_nhcd_header 8) = NHCD_BANKTABLE_MAGIC"
    by (simp add: w_nhcd_layout_def w_nhcd_header_def be32_at_def NHCD_BANKTABLE_MAGIC_def)
  have hc: "unat (header_bank_count w_nhcd_layout (w_nhcd_header 8)) = 8"
    by (simp add: w_nhcd_layout_def w_nhcd_header_def be32_at_def)
  have te: "nhcd_bank_type w_nhcd_layout (entry_type w_nhcd_layout zero_sector)
              = RVTH_BankType_Empty"
    by (simp add: nhcd_bank_type_def w_nhcd_layout_def be32_at_zero_sector)
  have td: "nhcd_bank_type w_nhcd_layout (entry_type w_nhcd_layout w_nhcd_entry_dl)
              = RVTH_BankType_Wii_DL"
    by (simp add: nhcd_bank_type_def w_nhcd_layout_def w_nhcd_entry_dl_def be32_at_def)
  have ld: "entry_lba_start w_nhcd_layout w_nhcd_entry_dl = 0"
    by (simp add: w_nhcd_layout_def w_nhcd_entry_dl_def be32_at_def foldl_be32_zero)
  have ad: "NHCD_BANKTABLE_ADDRESS_LBA w_nhcd_layout = 0x300000"
    by (simp add: w_nhcd_layout_def)
  have r8: "replicate 8 zero_BankEntry =
      [zero_BankEntry, zero_BankEntry, zero_BankEntry, zero_BankEntry,
       zero_BankEntry, zero_BankEntry, zero_BankEntry, zero_BankEntry]"
    by (simp add: numeral_eq_Suc)
  show ?thesis
    by (simp add: rvth_open_hdd_def ref_seeko_def ref_read_def LBA_TO_BYTES_def
        w_hdd_dl_last_def blank_file_def hm hc te td ld ad r8 open_hdd_loop.simps
        w_open_env_def w_init_BankEntry_def Let_def)
qed
text \<open>
  Where the loop over the full chunks is entered, the overlay is made. An extract that
  runs to its end, of a bank and into a destination that both hold at least one full 1 MiB
  chunk: when the first LBA of the source, as read from the stream, carries neither magic,
  LBA 0 of the destination is the cached disc header afterwards. The Readers' windows lie
  inside the 32-bit LBA range, the source window holds the first chunk and its first LBA is
  inside the stream, the streams seek, the buffer is the 1 MiB allocation, the cached
  header is one sector, and the destination is new (LBA 0 reads as zero before the copy).
\<close>

lemma rvth_copy_to_gcm_restores_header:
  assumes run: "rvth_copy_to_gcm_body lay env dest src bank_src callback
                  = Some (Success, None, dest1, src1)"
    and es: "entry_at src bank_src = Some es"
    and ed: "entry_at dest 0 = Some ed"
    and rs: "reader es = Some rs"
    and rd: "reader ed = Some rd"
    and buf: "malloc_buf env = Some buf"
    and len: "2048 \<le> unat (lba_len ed)" "2048 \<le> unat (lba_len es)"
    and src: "\<not> seek_fails (f_img src)" "2048 \<le> unat (rd_lba_len rs)"
      "unat (rd_lba_start rs) + unat (rd_lba_len rs) < 4294967296"
      "unat (rd_lba_start rs) < flen (f_img src)"
    and dst: "\<not> seek_fails (f_img dest)" "8 \<le> unat (rd_lba_len rd)"
      "unat (rd_lba_start rd) + unat (rd_lba_len rd) < 4294967296"
    and magic: "magic_wii lay (file_sector (f_img src) (unat (rd_lba_start rs))) \<noteq> WII_MAGIC"
      "magic_gcn lay (file_sector (f_img src) (unat (rd_lba_start rs))) \<noteq> GCN_MAGIC"
    and hdr: "length (discHeader es) = 512"
    and fresh: "file_sector (f_img dest) (unat (rd_lba_start rd)) = zero_sector"
  shows "file_sector (f_img dest1) (unat (rd_lba_start rd)) = discHeader es"
proof -
  let ?a = "unat (rd_lba_start rd)"
  let ?state = "\<lparr>ps_type = RVTH_PROGRESS_EXTRACT, bank_rvth = bank_src, bank_gcm = 0,
                  lba_processed = 0, lba_total = lba_len es\<rparr>"
  let ?fd0 = "(f_img dest)\<lparr>content := file_sector (f_img dest),
                 flen := nat (LBA_TO_BYTES (lba_len ed) div 512),
                 iolog := iolog (f_img dest) @ [IoMakeSparse (LBA_TO_BYTES (lba_len ed))]\<rparr>"
  let ?M = "unat (lba_len ed AND NOT (LBA_COUNT_BUF - 1))"
  obtain st3 where
    cr: "copy_run_gcm lay callback ?state es ed (buf, 0, f_img src, ?fd0) = Some (None, st3)"
    and d1: "dest1 = dest\<lparr>f_img := gcm_fd st3,
                          entries := (entries dest)[0 := copy_bank_info (time_now env) es ed]\<rparr>"
    using run es ed buf
    by (auto simp: rvth_copy_to_gcm_body_def ref_makeSparse_def gcm_result_def gcm_fd_def
        split: if_splits option.splits prod.splits)
  obtain lc st1 st2 where
    ch: "copy_chunks_gcm lay callback ?state (Some rs) (Some rd) (discHeader es) ?M 0
           (buf, 0, f_img src, ?fd0) = Some (Inr (lc, st1))"
    and tl: "copy_tail_gcm callback ?state (Some rs) (Some rd) (lba_len es) lc st1
               = Some (Inr st2)"
    and fi: "copy_finish_gcm callback ?state (Some rd) (lba_len es) st2 = Some (Inr st3)"
    using cr unfolding copy_run_gcm_def rs rd
    by (auto split: option.splits sum.splits prod.splits)
  have Me: "?M = unat (lba_len ed) div 2048 * 2048" by (rule lba_buf_max_eq)
  have Mdvd: "2048 dvd ?M" unfolding Me by simp
  have "?M \<le> unat (lba_len ed)" unfolding Me by simp
  then have Mlt: "?M < 4294967296" using unat_lt32[of "lba_len ed"] by arith
  have "1 \<le> unat (lba_len ed) div 2048" using len(1) by (simp add: div_greater_zero_iff)
  then have Mpos: "0 < ?M" unfolding Me by simp
  have fz: "file_sector ?fd0 ?a = zero_sector"
    using fresh by (simp add: file_sector_def)
  have s1: "file_sector (gcm_fd st1) ?a = discHeader es"
    by (rule copy_chunks_gcm_first[OF ch Mpos Mdvd Mlt src _ dst(2,3) magic hdr fz])
       (use dst(1) in simp)
  have lcM: "lc = ?M"
    by (rule copy_chunks_gcm_count[OF ch _ _ Mdvd]) simp_all
  have "file_sector (gcm_fd (case Inr st2 of Inl s \<Rightarrow> s | Inr s \<Rightarrow> s)) ?a
          = file_sector (gcm_fd st1) ?a"
    by (rule copy_tail_gcm_other[OF tl]) (use lcM Mpos Mlt in simp_all)
  then have s2: "file_sector (gcm_fd st2) ?a = discHeader es" using s1 by simp
  have n1: "lba_len es \<noteq> 1"
  proof
    assume "lba_len es = 1"
    then have "unat (lba_len es) = 1" by simp
    then show False using len(2) by simp
  qed
  have "file_sector (gcm_fd (case Inr st3 of Inl s \<Rightarrow> s | Inr s \<Rightarrow> s)) ?a
          = file_sector (gcm_fd st2) ?a"
    by (rule copy_finish_gcm_other[OF fi n1])
  then have "file_sector (gcm_fd st3) ?a = discHeader es" using s2 by simp
  then show ?thesis unfolding d1 by simp
qed

lemma rvth_copy_to_gcm_restores_header_example:
  "map_option (\<lambda>(ret, err, d, s). (ret, err, file_sector (f_img d) 0))
     (rvth_copy_to_gcm_body w_disc_layout w_env w_dest_2048 w_src_2048 0 None)
     = Some (Success, None, w_gcn_header)"
proof -
  from w_flushed_extract_runs obtain d s where
    run: "rvth_copy_to_gcm_body w_disc_layout w_env w_dest_2048 w_src_2048 0 None
            = Some (Success, None, d, s)"
    by blast
  have es: "entry_at w_src_2048 0 = Some w_entry_2048"
    and ed: "entry_at w_dest_2048 0 = Some w_dest_entry_2048"
    by (simp_all add: entry_at_def w_src_2048_def w_dest_2048_def)
  have rs: "reader w_entry_2048 = Some w_reader_2048"
    and rd: "reader w_dest_entry_2048 = Some w_reader_2048"
    by (simp_all add: w_entry_2048_def w_dest_entry_2048_def)
  have buf: "malloc_buf w_env = Some (replicate 2048 zero_sector)"
    by (simp add: w_env_def)
  have z: "file_sector (f_img w_src_2048) (unat (rd_lba_start w_reader_2048)) = zero_sector"
    by (simp add: file_sector_def w_src_2048_def blank_file_def)
  have "file_sector (f_img d) (unat (rd_lba_start w_reader_2048)) = discHeader w_entry_2048"
    by (rule rvth_copy_to_gcm_restores_header[OF run es ed rs rd buf])
       (simp_all add: z w_entry_2048_def w_dest_entry_2048_def w_reader_2048_def
          w_src_2048_def w_dest_2048_def blank_file_def file_sector_def w_gcn_header_def
          w_disc_layout_def be32_at_zero_sector WII_MAGIC_def GCN_MAGIC_def)
  then have "file_sector (f_img d) 0 = w_gcn_header"
    by (simp add: w_reader_2048_def w_entry_2048_def)
  then show ?thesis unfolding run by simp
qed

end
